theory Spec2Isabelle
  imports Main "HOL-Library.Word"
begin

unbundle bit_operations_syntax

section \<open>The STM32 DCMIPP pixel processor: data model\<close>

text \<open>
  A shallow embedding of \<^verbatim>\<open>dcmipp-pixelproc.c\<close>. C's \<^verbatim>\<open>u32\<close> and
  \<^verbatim>\<open>unsigned int\<close> are 32-bit words, so every \<open>+\<close> and \<open>*\<close> below wraps as
  the C arithmetic does. The \<^verbatim>\<open>__s32\<close> fields of a rectangle are words too, read
  through \<open>sint\<close> wherever the C code compares them as signed values.
\<close>

type_synonym u32 = "32 word"
type_synonym u16 = "16 word"
type_synonym s32 = "32 word"

text \<open>Error numbers the driver returns (negated in C); \<open>None\<close> stands for a return of 0.\<close>

datatype errno = EINVAL | EBUSY | EIO | ENOMEM

text \<open>
  A division whose divisor is zero has no defined result in C. The model makes it a
  separate outcome instead of using HOL's \<open>x div 0 = 0\<close>.
\<close>

datatype fault = DivisionByZero

record v4l2_mbus_framefmt =
  mf_width :: u32
  mf_height :: u32
  mf_code :: u32
  mf_field :: u32
  mf_colorspace :: u32
  mf_ycbcr_enc :: u16
  mf_quantization :: u16
  mf_xfer_func :: u16

record v4l2_rect =
  r_left :: s32
  r_top :: s32
  r_width :: u32
  r_height :: u32

record v4l2_fract =
  numerator :: u32
  denominator :: u32

record v4l2_subdev_format =
  sf_which :: u32
  sf_pad :: u32
  sf_format :: v4l2_mbus_framefmt

record v4l2_subdev_selection =
  ss_which :: u32
  ss_pad :: u32
  ss_target :: u32
  ss_r :: v4l2_rect

record v4l2_subdev_frame_interval =
  fi_pad :: u32
  fi_interval :: v4l2_fract

text \<open>
  The per-file-handle "try" configuration of the two pads. The subdev core only hands
  pad numbers 0 (sink) and 1 (source) to the pad operations, so the two array slots are
  two fields selected by \<^verbatim>\<open>IS_SRC\<close>.
\<close>

record v4l2_subdev_pad_config =
  try_fmt :: v4l2_mbus_framefmt
  try_crop :: v4l2_rect
  try_compose :: v4l2_rect

record v4l2_subdev_state =
  pad_sink :: v4l2_subdev_pad_config
  pad_src :: v4l2_subdev_pad_config

text \<open>
  Modelled from the spec: the register bus (\<^verbatim>\<open>reg_write\<close>, \<^verbatim>\<open>reg_set\<close>,
  \<^verbatim>\<open>reg_clear\<close> of \<^verbatim>\<open>dcmipp-common.h\<close>, absent from the sources) is the
  external collaborator \<open>write\<close>, \<open>set_bits\<close>, \<open>clear_bits\<close>. The device keeps
  the operations it issued, oldest first.
\<close>

datatype reg_op = Reg_write u32 u32 | Reg_set u32 u32 | Reg_clear u32 u32

record dcmipp_pixelproc_device =
  sink_fmt :: v4l2_mbus_framefmt
  src_fmt :: v4l2_mbus_framefmt
  streaming :: bool
  regs :: "reg_op list"
  ctrl_gamma :: s32
  pipe_id :: u32
  src_interval :: v4l2_fract
  sink_interval :: v4l2_fract
  frate :: u32
  src_code :: u32
  crop :: v4l2_rect
  compose :: v4l2_rect

record dcmipp_colorconv_config =
  conv_matrix :: "nat \<Rightarrow> u32"
  clamping :: bool
  clamping_as_rgb :: bool
  enable :: bool

text \<open>
  What the file takes from headers and collaborators that are not among the sources, as
  one parameter: the frame size limits \<^verbatim>\<open>DCMIPP_FRAME_MIN_WIDTH\<close> ...
  \<^verbatim>\<open>DCMIPP_FRAME_MAX_HEIGHT\<close>, \<^verbatim>\<open>dcmipp_colorimetry_clamp\<close>,
  \<^verbatim>\<open>dcmipp_colorconv_configure\<close>, the answer of
  \<^verbatim>\<open>pm_runtime_get_if_in_use\<close>, and at construction time whether
  \<^verbatim>\<open>kzalloc\<close> succeeds, the control handler's error and the result of
  \<^verbatim>\<open>dcmipp_ent_sd_register\<close>.
\<close>

record dcmipp_common =
  FRAME_MIN_WIDTH :: u32
  FRAME_MAX_WIDTH :: u32
  FRAME_MIN_HEIGHT :: u32
  FRAME_MAX_HEIGHT :: u32
  colorimetry_clamp :: "v4l2_mbus_framefmt \<Rightarrow> v4l2_mbus_framefmt"
  colorconv_configure ::
    "v4l2_mbus_framefmt \<Rightarrow> v4l2_mbus_framefmt \<Rightarrow> errno + dcmipp_colorconv_config"
  pm_in_use :: bool
  kzalloc_ok :: bool
  ctrls_error :: "errno option"
  ent_sd_register :: "errno option"

subsection \<open>Constants\<close>

text \<open>Media bus codes, with the values of the kernel's \<^verbatim>\<open>media-bus-format.h\<close>.\<close>

definition MEDIA_BUS_FMT_RGB565_2X8_LE :: u32 where "MEDIA_BUS_FMT_RGB565_2X8_LE = 0x1008"
definition MEDIA_BUS_FMT_RGB888_1X24 :: u32 where "MEDIA_BUS_FMT_RGB888_1X24 = 0x100a"
definition MEDIA_BUS_FMT_BGR888_1X24 :: u32 where "MEDIA_BUS_FMT_BGR888_1X24 = 0x1013"
definition MEDIA_BUS_FMT_Y8_1X8 :: u32 where "MEDIA_BUS_FMT_Y8_1X8 = 0x2001"
definition MEDIA_BUS_FMT_UYVY8_1_5X8 :: u32 where "MEDIA_BUS_FMT_UYVY8_1_5X8 = 0x2002"
definition MEDIA_BUS_FMT_VYUY8_1_5X8 :: u32 where "MEDIA_BUS_FMT_VYUY8_1_5X8 = 0x2003"
definition MEDIA_BUS_FMT_YUYV8_1_5X8 :: u32 where "MEDIA_BUS_FMT_YUYV8_1_5X8 = 0x2004"
definition MEDIA_BUS_FMT_YVYU8_1_5X8 :: u32 where "MEDIA_BUS_FMT_YVYU8_1_5X8 = 0x2005"
definition MEDIA_BUS_FMT_UYVY8_2X8 :: u32 where "MEDIA_BUS_FMT_UYVY8_2X8 = 0x2006"
definition MEDIA_BUS_FMT_VYUY8_2X8 :: u32 where "MEDIA_BUS_FMT_VYUY8_2X8 = 0x2007"
definition MEDIA_BUS_FMT_YUYV8_2X8 :: u32 where "MEDIA_BUS_FMT_YUYV8_2X8 = 0x2008"
definition MEDIA_BUS_FMT_YVYU8_2X8 :: u32 where "MEDIA_BUS_FMT_YVYU8_2X8 = 0x2009"
definition MEDIA_BUS_FMT_YUYV8_1X16 :: u32 where "MEDIA_BUS_FMT_YUYV8_1X16 = 0x2011"
definition MEDIA_BUS_FMT_YVYU8_1X16 :: u32 where "MEDIA_BUS_FMT_YVYU8_1X16 = 0x2012"
definition MEDIA_BUS_FMT_YUV8_1X24 :: u32 where "MEDIA_BUS_FMT_YUV8_1X24 = 0x2025"
definition MEDIA_BUS_FMT_SBGGR8_1X8 :: u32 where "MEDIA_BUS_FMT_SBGGR8_1X8 = 0x3001"

text \<open>
  The \<^verbatim>\<open>which\<close> selector, the selection targets, the field orders and the
  colorspace, with the values of the kernel's \<^verbatim>\<open>v4l2-subdev.h\<close>,
  \<^verbatim>\<open>v4l2-common.h\<close> and \<^verbatim>\<open>videodev2.h\<close>.
\<close>

definition V4L2_SUBDEV_FORMAT_TRY :: u32 where "V4L2_SUBDEV_FORMAT_TRY = 0"
definition V4L2_SUBDEV_FORMAT_ACTIVE :: u32 where "V4L2_SUBDEV_FORMAT_ACTIVE = 1"

definition V4L2_SEL_TGT_CROP :: u32 where "V4L2_SEL_TGT_CROP = 0x0000"
definition V4L2_SEL_TGT_CROP_DEFAULT :: u32 where "V4L2_SEL_TGT_CROP_DEFAULT = 0x0001"
definition V4L2_SEL_TGT_CROP_BOUNDS :: u32 where "V4L2_SEL_TGT_CROP_BOUNDS = 0x0002"
definition V4L2_SEL_TGT_COMPOSE :: u32 where "V4L2_SEL_TGT_COMPOSE = 0x0100"

definition V4L2_FIELD_ANY :: u32 where "V4L2_FIELD_ANY = 0"
definition V4L2_FIELD_NONE :: u32 where "V4L2_FIELD_NONE = 1"
definition V4L2_FIELD_ALTERNATE :: u32 where "V4L2_FIELD_ALTERNATE = 7"
definition V4L2_COLORSPACE_REC709 :: u32 where "V4L2_COLORSPACE_REC709 = 3"

definition DCMIPP_FMT_WIDTH_DEFAULT :: u32 where "DCMIPP_FMT_WIDTH_DEFAULT = 640"
definition DCMIPP_FMT_HEIGHT_DEFAULT :: u32 where "DCMIPP_FMT_HEIGHT_DEFAULT = 480"

definition PIXELPROC_MEDIA_BUS_SRC_FMT_DEFAULT :: u32 where
  "PIXELPROC_MEDIA_BUS_SRC_FMT_DEFAULT = MEDIA_BUS_FMT_RGB565_2X8_LE"
definition PIXELPROC_MEDIA_BUS_SINK_FMT_DEFAULT :: u32 where
  "PIXELPROC_MEDIA_BUS_SINK_FMT_DEFAULT = MEDIA_BUS_FMT_RGB888_1X24"

definition IS_SINK :: "u32 \<Rightarrow> bool" where "IS_SINK pad = (pad = 0)"
definition IS_SRC :: "u32 \<Rightarrow> bool" where "IS_SRC pad = (pad \<noteq> 0)"

definition DCMIPP_MAX_DECIMATION_RATIO :: u32 where "DCMIPP_MAX_DECIMATION_RATIO = 8"
definition DCMIPP_MAX_DOWNSIZE_RATIO :: u32 where "DCMIPP_MAX_DOWNSIZE_RATIO = 8"
definition DCMIPP_MAX_DOWNSCALE_RATIO :: u32 where "DCMIPP_MAX_DOWNSCALE_RATIO = 64"

definition DCMIPP_PIXELPROC_HVRATIO_CONS :: u32 where "DCMIPP_PIXELPROC_HVRATIO_CONS = 8192"
definition DCMIPP_PIXELPROC_HVRATIO_MAX :: u32 where "DCMIPP_PIXELPROC_HVRATIO_MAX = 65535"
definition DCMIPP_PIXELPROC_HVDIV_CONS :: u32 where "DCMIPP_PIXELPROC_HVDIV_CONS = 1024"
definition DCMIPP_PIXELPROC_HVDIV_MAX :: u32 where "DCMIPP_PIXELPROC_HVDIV_MAX = 1023"

subsection \<open>The pixel format tables\<close>

record dcmipp_pixelproc_pix_map =
  pm_code :: u32
  ppcr_fmt :: u32
  swap_uv :: u32

definition PIXMAP_MBUS_PPCR_SWAPUV :: "u32 \<Rightarrow> u32 \<Rightarrow> u32 \<Rightarrow> dcmipp_pixelproc_pix_map" where
  "PIXMAP_MBUS_PPCR_SWAPUV mbus pp_code swap =
     \<lparr>pm_code = mbus, ppcr_fmt = pp_code, swap_uv = swap\<rparr>"

definition dcmipp_pixelproc_sink_pix_map_list :: "dcmipp_pixelproc_pix_map list" where
  "dcmipp_pixelproc_sink_pix_map_list =
    [PIXMAP_MBUS_PPCR_SWAPUV MEDIA_BUS_FMT_RGB888_1X24 0 0,
     PIXMAP_MBUS_PPCR_SWAPUV MEDIA_BUS_FMT_YUV8_1X24 0 0]"

definition dcmipp_pixelproc_src_pix_map_list :: "dcmipp_pixelproc_pix_map list" where
  "dcmipp_pixelproc_src_pix_map_list =
    [PIXMAP_MBUS_PPCR_SWAPUV MEDIA_BUS_FMT_RGB888_1X24 0x0 1,
     PIXMAP_MBUS_PPCR_SWAPUV MEDIA_BUS_FMT_BGR888_1X24 0x0 0,
     PIXMAP_MBUS_PPCR_SWAPUV MEDIA_BUS_FMT_RGB565_2X8_LE 0x1 0,
     PIXMAP_MBUS_PPCR_SWAPUV MEDIA_BUS_FMT_YUYV8_2X8 0x6 0,
     PIXMAP_MBUS_PPCR_SWAPUV MEDIA_BUS_FMT_YVYU8_2X8 0x6 1,
     PIXMAP_MBUS_PPCR_SWAPUV MEDIA_BUS_FMT_UYVY8_2X8 0xa 0,
     PIXMAP_MBUS_PPCR_SWAPUV MEDIA_BUS_FMT_VYUY8_2X8 0xa 1,
     PIXMAP_MBUS_PPCR_SWAPUV MEDIA_BUS_FMT_Y8_1X8 0x4 0,
     PIXMAP_MBUS_PPCR_SWAPUV MEDIA_BUS_FMT_YUYV8_1_5X8 0x8 0,
     PIXMAP_MBUS_PPCR_SWAPUV MEDIA_BUS_FMT_YVYU8_1_5X8 0x8 1,
     PIXMAP_MBUS_PPCR_SWAPUV MEDIA_BUS_FMT_YUYV8_1X16 0x7 0,
     PIXMAP_MBUS_PPCR_SWAPUV MEDIA_BUS_FMT_YVYU8_1X16 0x7 1,
     PIXMAP_MBUS_PPCR_SWAPUV MEDIA_BUS_FMT_UYVY8_1_5X8 0x9 0,
     PIXMAP_MBUS_PPCR_SWAPUV MEDIA_BUS_FMT_VYUY8_1_5X8 0x9 1]"

text \<open>The \<^verbatim>\<open>for\<close> loop of \<^verbatim>\<open>pix_map_by_code\<close>: the first entry with the code.\<close>

fun pix_map_scan :: "dcmipp_pixelproc_pix_map list \<Rightarrow> u32 \<Rightarrow> dcmipp_pixelproc_pix_map option" where
  "pix_map_scan [] c = None"
| "pix_map_scan (e # l) c = (if pm_code e = c then Some e else pix_map_scan l c)"

definition dcmipp_pixelproc_pix_map_by_code :: "u32 \<Rightarrow> u32 \<Rightarrow> dcmipp_pixelproc_pix_map option" where
  "dcmipp_pixelproc_pix_map_by_code c pad =
     pix_map_scan (if IS_SRC pad then dcmipp_pixelproc_src_pix_map_list
                   else dcmipp_pixelproc_sink_pix_map_list) c"

definition dcmipp_pixelproc_pix_map_by_index :: "u32 \<Rightarrow> u32 \<Rightarrow> dcmipp_pixelproc_pix_map option" where
  "dcmipp_pixelproc_pix_map_by_index i pad =
     (let l = (if IS_SRC pad then dcmipp_pixelproc_src_pix_map_list
               else dcmipp_pixelproc_sink_pix_map_list)
      in if unat i \<ge> length l then None else Some (l ! unat i))"

subsection \<open>Geometry rules\<close>

definition fmt_default :: v4l2_mbus_framefmt where
  "fmt_default =
     \<lparr>mf_width = DCMIPP_FMT_WIDTH_DEFAULT, mf_height = DCMIPP_FMT_HEIGHT_DEFAULT,
      mf_code = PIXELPROC_MEDIA_BUS_SINK_FMT_DEFAULT, mf_field = V4L2_FIELD_NONE,
      mf_colorspace = V4L2_COLORSPACE_REC709, mf_ycbcr_enc = 0, mf_quantization = 0,
      mf_xfer_func = 0\<rparr>"

definition crop_min :: "dcmipp_common \<Rightarrow> v4l2_rect" where
  "crop_min env =
     \<lparr>r_left = 0, r_top = 0, r_width = FRAME_MIN_WIDTH env, r_height = FRAME_MIN_HEIGHT env\<rparr>"

definition clamp_t :: "u32 \<Rightarrow> u32 \<Rightarrow> u32 \<Rightarrow> u32" where
  "clamp_t val lo hi = min (max val lo) hi"

definition dcmipp_pixelproc_get_crop_bound :: "v4l2_mbus_framefmt \<Rightarrow> v4l2_rect" where
  "dcmipp_pixelproc_get_crop_bound fmt =
     \<lparr>r_left = 0, r_top = 0, r_width = mf_width fmt, r_height = mf_height fmt\<rparr>"

text \<open>
  Modelled from the spec: \<^verbatim>\<open>v4l2_rect_set_min_size\<close> and
  \<^verbatim>\<open>v4l2_rect_map_inside\<close> of \<^verbatim>\<open>media/v4l2-rect.h\<close> are not among the sources.
  The first clamps width and height up to the minimum; the second clamps the size down to
  the boundary's and then moves the rectangle so that it lies inside the boundary.
\<close>

definition v4l2_rect_set_min_size :: "v4l2_rect \<Rightarrow> v4l2_rect \<Rightarrow> v4l2_rect" where
  "v4l2_rect_set_min_size r min_size =
     (let r = (if r_width r < r_width min_size then r\<lparr>r_width := r_width min_size\<rparr> else r)
      in if r_height r < r_height min_size then r\<lparr>r_height := r_height min_size\<rparr> else r)"

definition v4l2_rect_set_max_size :: "v4l2_rect \<Rightarrow> v4l2_rect \<Rightarrow> v4l2_rect" where
  "v4l2_rect_set_max_size r max_size =
     (let r = (if r_width r > r_width max_size then r\<lparr>r_width := r_width max_size\<rparr> else r)
      in if r_height r > r_height max_size then r\<lparr>r_height := r_height max_size\<rparr> else r)"

definition v4l2_rect_map_inside :: "v4l2_rect \<Rightarrow> v4l2_rect \<Rightarrow> v4l2_rect" where
  "v4l2_rect_map_inside r0 boundary =
     (let r = v4l2_rect_set_max_size r0 boundary;
          r = (if sint (r_left r) < sint (r_left boundary)
               then r\<lparr>r_left := r_left boundary\<rparr> else r);
          r = (if sint (r_top r) < sint (r_top boundary)
               then r\<lparr>r_top := r_top boundary\<rparr> else r);
          r = (if r_left r + r_width r > r_left boundary + r_width boundary
               then r\<lparr>r_left := r_left boundary + r_width boundary - r_width r\<rparr> else r)
      in if r_top r + r_height r > r_top boundary + r_height boundary
         then r\<lparr>r_top := r_top boundary + r_height boundary - r_height r\<rparr> else r)"

definition dcmipp_pixelproc_adjust_crop ::
  "dcmipp_common \<Rightarrow> v4l2_rect \<Rightarrow> v4l2_mbus_framefmt \<Rightarrow> v4l2_rect" where
  "dcmipp_pixelproc_adjust_crop env r fmt =
     (let src_rect = dcmipp_pixelproc_get_crop_bound fmt
      in v4l2_rect_map_inside (v4l2_rect_set_min_size r (crop_min env)) src_rect)"

definition dcmipp_pixelproc_adjust_fmt ::
  "dcmipp_common \<Rightarrow> v4l2_mbus_framefmt \<Rightarrow> u32 \<Rightarrow> v4l2_mbus_framefmt" where
  "dcmipp_pixelproc_adjust_fmt env fmt0 pad =
     (let fmt = (case dcmipp_pixelproc_pix_map_by_code (mf_code fmt0) pad of
                   None \<Rightarrow> fmt0\<lparr>mf_code := (if IS_SRC pad then PIXELPROC_MEDIA_BUS_SRC_FMT_DEFAULT
                                            else PIXELPROC_MEDIA_BUS_SINK_FMT_DEFAULT)\<rparr>
                 | Some vpix \<Rightarrow> fmt0);
          fmt = fmt\<lparr>mf_width := clamp_t (mf_width fmt) (FRAME_MIN_WIDTH env) (FRAME_MAX_WIDTH env)\<rparr>;
          fmt = fmt\<lparr>mf_height := clamp_t (mf_height fmt) (FRAME_MIN_HEIGHT env) (FRAME_MAX_HEIGHT env)\<rparr>;
          fmt = (if mf_field fmt = V4L2_FIELD_ANY \<or> mf_field fmt = V4L2_FIELD_ALTERNATE
                 then fmt\<lparr>mf_field := V4L2_FIELD_NONE\<rparr> else fmt)
      in colorimetry_clamp env fmt)"

section \<open>Operations\<close>

subsection \<open>Construction\<close>

text \<open>\<^verbatim>\<open>strstr(name, needle) != NULL\<close>: the needle occurs in the name.\<close>

fun starts_with :: "string \<Rightarrow> string \<Rightarrow> bool" where
  "starts_with s [] = True"
| "starts_with [] (c # n) = False"
| "starts_with (a # s) (c # n) = (a = c \<and> starts_with s n)"

fun strstr :: "string \<Rightarrow> string \<Rightarrow> bool" where
  "strstr [] needle = starts_with [] needle"
| "strstr (a # s) needle = (starts_with (a # s) needle \<or> strstr s needle)"

text \<open>The result is a C \<^verbatim>\<open>int\<close>; \<^verbatim>\<open>-EINVAL\<close> is \<open>- 22\<close>.\<close>

definition dcmipp_name_to_pipe_id :: "string \<Rightarrow> s32" where
  "dcmipp_name_to_pipe_id name =
     (if strstr name ''main'' then 1 else if strstr name ''aux'' then 2 else - 22)"

definition dcmipp_pixelproc_ent_init ::
  "dcmipp_common \<Rightarrow> string \<Rightarrow> errno + dcmipp_pixelproc_device" where
  "dcmipp_pixelproc_ent_init env entity_name =
     (let interval = \<lparr>numerator = 1, denominator = 30\<rparr>;
          pid = dcmipp_name_to_pipe_id entity_name
      in if \<not> kzalloc_ok env then Inl ENOMEM
         else if pid \<noteq> 1 \<and> pid \<noteq> 2 then Inl EIO
         else case ctrls_error env of
           Some e \<Rightarrow> Inl e
         | None \<Rightarrow>
            (case ent_sd_register env of
               Some e \<Rightarrow> Inl e
             | None \<Rightarrow>
                Inr \<lparr>sink_fmt = fmt_default\<lparr>mf_code := PIXELPROC_MEDIA_BUS_SINK_FMT_DEFAULT\<rparr>,
                     src_fmt = fmt_default\<lparr>mf_code := PIXELPROC_MEDIA_BUS_SRC_FMT_DEFAULT\<rparr>,
                     streaming = False,
                     regs = [],
                     ctrl_gamma = 0,
                     pipe_id = pid,
                     src_interval = interval,
                     sink_interval = interval,
                     frate = 0,
                     src_code = 0,
                     crop = \<lparr>r_left = 0, r_top = 0, r_width = DCMIPP_FMT_WIDTH_DEFAULT,
                             r_height = DCMIPP_FMT_HEIGHT_DEFAULT\<rparr>,
                     compose = \<lparr>r_left = 0, r_top = 0, r_width = DCMIPP_FMT_WIDTH_DEFAULT,
                                r_height = DCMIPP_FMT_HEIGHT_DEFAULT\<rparr>\<rparr>))"

definition dcmipp_pixelproc_init_cfg :: "v4l2_subdev_state \<Rightarrow> v4l2_subdev_state" where
  "dcmipp_pixelproc_init_cfg state =
     state\<lparr>pad_sink := (pad_sink state)
              \<lparr>try_fmt := fmt_default\<lparr>mf_code := PIXELPROC_MEDIA_BUS_SINK_FMT_DEFAULT\<rparr>\<rparr>,
           pad_src := (pad_src state)
              \<lparr>try_fmt := fmt_default\<lparr>mf_code := PIXELPROC_MEDIA_BUS_SRC_FMT_DEFAULT\<rparr>\<rparr>\<rparr>"

text \<open>
  An instance of the parameter, for running the operations: frame sizes from 16x16 to
  4096x2160, a colorimetry clamp that changes nothing, a colour conversion that is
  switched off, and collaborators that succeed.
\<close>

definition dcmipp_common_example :: dcmipp_common where
  "dcmipp_common_example =
     \<lparr>FRAME_MIN_WIDTH = 16, FRAME_MAX_WIDTH = 4096,
      FRAME_MIN_HEIGHT = 16, FRAME_MAX_HEIGHT = 2160,
      colorimetry_clamp = (\<lambda>f. f),
      colorconv_configure = (\<lambda>sink src.
        Inr \<lparr>conv_matrix = (\<lambda>i. 0), clamping = False, clamping_as_rgb = False,
             enable = False\<rparr>),
      pm_in_use = True, kzalloc_ok = True, ctrls_error = None, ent_sd_register = None\<rparr>"

text \<open>The device of the main pipe as \<^verbatim>\<open>dcmipp_pixelproc_ent_init\<close> leaves it.\<close>

definition pixelproc_main :: dcmipp_pixelproc_device where
  "pixelproc_main =
     \<lparr>sink_fmt = \<lparr>mf_width = 640, mf_height = 480, mf_code = 0x100a, mf_field = 1,
         mf_colorspace = 3, mf_ycbcr_enc = 0, mf_quantization = 0, mf_xfer_func = 0\<rparr>,
      src_fmt = \<lparr>mf_width = 640, mf_height = 480, mf_code = 0x1008, mf_field = 1,
         mf_colorspace = 3, mf_ycbcr_enc = 0, mf_quantization = 0, mf_xfer_func = 0\<rparr>,
      streaming = False, regs = [], ctrl_gamma = 0, pipe_id = 1,
      src_interval = \<lparr>numerator = 1, denominator = 30\<rparr>,
      sink_interval = \<lparr>numerator = 1, denominator = 30\<rparr>,
      frate = 0, src_code = 0,
      crop = \<lparr>r_left = 0, r_top = 0, r_width = 640, r_height = 480\<rparr>,
      compose = \<lparr>r_left = 0, r_top = 0, r_width = 640, r_height = 480\<rparr>\<rparr>"

text \<open>
  A try state as the subdev core allocates it (zeroed) and \<^verbatim>\<open>init_cfg\<close> fills it.
\<close>

definition v4l2_subdev_state_zeroed :: v4l2_subdev_state where
  "v4l2_subdev_state_zeroed =
     (let z = \<lparr>try_fmt = \<lparr>mf_width = 0, mf_height = 0, mf_code = 0, mf_field = 0,
                  mf_colorspace = 0, mf_ycbcr_enc = 0, mf_quantization = 0, mf_xfer_func = 0\<rparr>,
                try_crop = \<lparr>r_left = 0, r_top = 0, r_width = 0, r_height = 0\<rparr>,
                try_compose = \<lparr>r_left = 0, r_top = 0, r_width = 0, r_height = 0\<rparr>\<rparr>
      in \<lparr>pad_sink = z, pad_src = z\<rparr>)"

definition try_state_init :: v4l2_subdev_state where
  "try_state_init = dcmipp_pixelproc_init_cfg v4l2_subdev_state_zeroed"

subsection \<open>Formats\<close>

text \<open>\<^verbatim>\<open>v4l2_subdev_get_try_format(sd, state, pad)\<close> and its two siblings.\<close>

definition v4l2_subdev_get_try :: "v4l2_subdev_state \<Rightarrow> u32 \<Rightarrow> v4l2_subdev_pad_config" where
  "v4l2_subdev_get_try state pad = (if IS_SRC pad then pad_src state else pad_sink state)"

definition set_try_format ::
  "v4l2_subdev_state \<Rightarrow> u32 \<Rightarrow> v4l2_mbus_framefmt \<Rightarrow> v4l2_subdev_state" where
  "set_try_format state pad f =
     (if IS_SRC pad then state\<lparr>pad_src := (pad_src state)\<lparr>try_fmt := f\<rparr>\<rparr>
      else state\<lparr>pad_sink := (pad_sink state)\<lparr>try_fmt := f\<rparr>\<rparr>)"

definition dcmipp_pixelproc_get_fmt ::
  "dcmipp_pixelproc_device \<Rightarrow> v4l2_subdev_state \<Rightarrow> v4l2_subdev_format
   \<Rightarrow> errno option \<times> v4l2_subdev_format" where
  "dcmipp_pixelproc_get_fmt pixelproc state fmt =
     (None,
      fmt\<lparr>sf_format :=
        (if IS_SINK (sf_pad fmt)
         then (if sf_which fmt = V4L2_SUBDEV_FORMAT_TRY
               then try_fmt (v4l2_subdev_get_try state (sf_pad fmt)) else sink_fmt pixelproc)
         else (if sf_which fmt = V4L2_SUBDEV_FORMAT_TRY
               then try_fmt (v4l2_subdev_get_try state (sf_pad fmt)) else src_fmt pixelproc))\<rparr>)"

text \<open>
  \<^verbatim>\<open>dcmipp_pixelproc_set_fmt\<close>. The result is the return value, the device, the try
  state and the caller's \<^verbatim>\<open>fmt\<close>, all of which the C function may write.
\<close>

definition dcmipp_pixelproc_set_fmt ::
  "dcmipp_common \<Rightarrow> dcmipp_pixelproc_device \<Rightarrow> v4l2_subdev_state \<Rightarrow> v4l2_subdev_format
   \<Rightarrow> errno option \<times> dcmipp_pixelproc_device \<times> v4l2_subdev_state \<times> v4l2_subdev_format" where
  "dcmipp_pixelproc_set_fmt env pixelproc state fmt0 =
     (let active = (sf_which fmt0 = V4L2_SUBDEV_FORMAT_ACTIVE); pad = sf_pad fmt0
      in if active \<and> streaming pixelproc then (Some EBUSY, pixelproc, state, fmt0)
         else
           let format = dcmipp_pixelproc_adjust_fmt env (sf_format fmt0) pad;
               fmt = fmt0\<lparr>sf_format := format\<rparr>;
               src_pad_fmt = format\<lparr>mf_code :=
                 (if mf_code format \<ge> MEDIA_BUS_FMT_Y8_1X8 \<and>
                     mf_code format < MEDIA_BUS_FMT_SBGGR8_1X8
                  then MEDIA_BUS_FMT_YUYV8_2X8 else MEDIA_BUS_FMT_RGB565_2X8_LE)\<rparr>;
               \<comment> \<open>When setting sink format, we have to update the src format\<close>
               pixelproc = (if IS_SINK pad \<and> active
                            then pixelproc\<lparr>src_fmt := src_pad_fmt\<rparr> else pixelproc);
               state = (if IS_SINK pad \<and> \<not> active
                        then set_try_format state 1 src_pad_fmt else state);
               \<comment> \<open>\<^verbatim>\<open>*pad_fmt = fmt->format\<close>\<close>
               pixelproc = (if active
                            then (if IS_SINK pad then pixelproc\<lparr>sink_fmt := format\<rparr>
                                  else pixelproc\<lparr>src_fmt := format\<rparr>)
                            else pixelproc);
               state = (if active then state else set_try_format state pad format);
               \<comment> \<open>Update sink pad crop - compose\<close>
               pixelproc = (if IS_SINK pad \<and> active
                 then pixelproc
                   \<lparr>crop := (crop pixelproc)\<lparr>r_top := 0, r_left := 0,
                        r_width := mf_width format, r_height := mf_height format\<rparr>,
                    compose := (compose pixelproc)\<lparr>r_top := 0, r_left := 0,
                        r_width := mf_width format, r_height := mf_height format\<rparr>\<rparr>
                 else pixelproc)
           in (None, pixelproc, state, fmt))"

subsection \<open>Selections\<close>

definition dcmipp_pixelproc_get_selection ::
  "dcmipp_pixelproc_device \<Rightarrow> v4l2_subdev_state \<Rightarrow> v4l2_subdev_selection
   \<Rightarrow> errno option \<times> v4l2_subdev_selection" where
  "dcmipp_pixelproc_get_selection pixelproc state s =
     (if IS_SRC (ss_pad s) then (Some EINVAL, s)
      else
        let active = (ss_which s = V4L2_SUBDEV_FORMAT_ACTIVE);
            cfg = v4l2_subdev_get_try state (ss_pad s);
            sink = (if active then sink_fmt pixelproc else try_fmt cfg);
            crp = (if active then crop pixelproc else try_crop cfg);
            cmp = (if active then compose pixelproc else try_compose cfg)
        in if ss_target s = V4L2_SEL_TGT_CROP then (None, s\<lparr>ss_r := crp\<rparr>)
           else if ss_target s = V4L2_SEL_TGT_CROP_BOUNDS \<or>
                   ss_target s = V4L2_SEL_TGT_CROP_DEFAULT
           then (None, s\<lparr>ss_r := dcmipp_pixelproc_get_crop_bound sink\<rparr>)
           else if ss_target s = V4L2_SEL_TGT_COMPOSE then (None, s\<lparr>ss_r := cmp\<rparr>)
           else (Some EINVAL, s))"

text \<open>The \<^verbatim>\<open>V4L2_SEL_TGT_COMPOSE\<close> case: the request clamped against the stored crop.\<close>

definition compose_clamp :: "v4l2_rect \<Rightarrow> v4l2_rect \<Rightarrow> v4l2_rect" where
  "compose_clamp r0 crp =
     (let r = (if r_width r0 > r_width crp then r0\<lparr>r_width := r_width crp\<rparr>
               else if r_width r0 < r_width crp div DCMIPP_MAX_DOWNSCALE_RATIO
               then r0\<lparr>r_width := r_width crp div DCMIPP_MAX_DOWNSCALE_RATIO\<rparr>
               else r0);
          r = (if r_height r > r_height crp then r\<lparr>r_height := r_height crp\<rparr>
               else if r_height r < r_height crp div DCMIPP_MAX_DOWNSCALE_RATIO
               then r\<lparr>r_height := r_height crp div DCMIPP_MAX_DOWNSCALE_RATIO\<rparr>
               else r)
      in r\<lparr>r_top := 0, r_left := 0\<rparr>)"

text \<open>
  \<^verbatim>\<open>dcmipp_pixelproc_set_selection\<close>. \<open>store\<close> writes through the four pointers
  \<^verbatim>\<open>crop\<close>, \<^verbatim>\<open>compose\<close> and \<^verbatim>\<open>src_fmt\<close> that the function chose from
  \<^verbatim>\<open>which\<close>: into the device, or into the try state.
\<close>

definition selection_store ::
  "bool \<Rightarrow> dcmipp_pixelproc_device \<Rightarrow> v4l2_subdev_state \<Rightarrow> v4l2_rect option \<Rightarrow> v4l2_rect
   \<Rightarrow> dcmipp_pixelproc_device \<times> v4l2_subdev_state" where
  "selection_store active pixelproc state new_crop new_compose =
     (if active
      then (pixelproc
             \<lparr>crop := (case new_crop of None \<Rightarrow> crop pixelproc | Some c \<Rightarrow> c),
              compose := new_compose,
              src_fmt := (src_fmt pixelproc)
                 \<lparr>mf_width := r_width new_compose, mf_height := r_height new_compose\<rparr>\<rparr>,
            state)
      else (pixelproc,
            state
             \<lparr>pad_sink := (pad_sink state)
                \<lparr>try_crop := (case new_crop of None \<Rightarrow> try_crop (pad_sink state) | Some c \<Rightarrow> c),
                 try_compose := new_compose\<rparr>,
              pad_src := (pad_src state)
                \<lparr>try_fmt := (try_fmt (pad_src state))
                   \<lparr>mf_width := r_width new_compose, mf_height := r_height new_compose\<rparr>\<rparr>\<rparr>))"

definition dcmipp_pixelproc_set_selection ::
  "dcmipp_common \<Rightarrow> dcmipp_pixelproc_device \<Rightarrow> v4l2_subdev_state \<Rightarrow> v4l2_subdev_selection
   \<Rightarrow> errno option \<times> dcmipp_pixelproc_device \<times> v4l2_subdev_state \<times> v4l2_subdev_selection" where
  "dcmipp_pixelproc_set_selection env pixelproc state s =
     (if IS_SRC (ss_pad s) then (Some EINVAL, pixelproc, state, s)
      else
        let active = (ss_which s = V4L2_SUBDEV_FORMAT_ACTIVE);
            sink = (if active then sink_fmt pixelproc else try_fmt (pad_sink state));
            crp = (if active then crop pixelproc else try_crop (pad_sink state))
        in if ss_target s = V4L2_SEL_TGT_CROP then
             let r = dcmipp_pixelproc_adjust_crop env (ss_r s) sink;
                 (pixelproc, state) = selection_store active pixelproc state (Some r) r
             in (None, pixelproc, state, s\<lparr>ss_r := r\<rparr>)
           else if ss_target s = V4L2_SEL_TGT_COMPOSE then
             let r = compose_clamp (ss_r s) crp;
                 (pixelproc, state) = selection_store active pixelproc state None r
             in (None, pixelproc, state, s\<lparr>ss_r := r\<rparr>)
           else (Some EINVAL, pixelproc, state, s))"

subsection \<open>Frame intervals\<close>

text \<open>C's unsigned division, with the zero divisor made visible.\<close>

definition udiv :: "u32 \<Rightarrow> u32 \<Rightarrow> fault + u32" where
  "udiv a b = (if b = 0 then Inl DivisionByZero else Inr (a div b))"

definition dcmipp_frates :: "u32 list" where
  "dcmipp_frates = [1, 2, 4, 8]"

definition dcmipp_pixelproc_g_frame_interval ::
  "dcmipp_pixelproc_device \<Rightarrow> v4l2_subdev_frame_interval
   \<Rightarrow> errno option \<times> v4l2_subdev_frame_interval" where
  "dcmipp_pixelproc_g_frame_interval pixelproc fi =
     (None, fi\<lparr>fi_interval := (if IS_SINK (fi_pad fi) then sink_interval pixelproc
                                 else src_interval pixelproc)\<rparr>)"

text \<open>
  \<^verbatim>\<open>dcmipp_pixelproc_s_frame_interval\<close>. The source-pad branch divides by
  \<^verbatim>\<open>sink_interval.numerator * fi->interval.denominator\<close>, a 32-bit product.
\<close>

definition dcmipp_pixelproc_s_frame_interval ::
  "dcmipp_pixelproc_device \<Rightarrow> v4l2_subdev_frame_interval
   \<Rightarrow> fault + (errno option \<times> dcmipp_pixelproc_device \<times> v4l2_subdev_frame_interval)" where
  "dcmipp_pixelproc_s_frame_interval pixelproc fi0 =
     (if streaming pixelproc then Inr (Some EBUSY, pixelproc, fi0)
      else
        let fi = (if numerator (fi_interval fi0) = 0 \<or> denominator (fi_interval fi0) = 0
                  then fi0\<lparr>fi_interval := sink_interval pixelproc\<rparr> else fi0)
        in if IS_SINK (fi_pad fi) then
             Inr (None,
                  pixelproc\<lparr>frate := 0, sink_interval := fi_interval fi,
                            src_interval := fi_interval fi\<rparr>,
                  fi)
           else
             case udiv (denominator (sink_interval pixelproc) * numerator (fi_interval fi))
                       (numerator (sink_interval pixelproc) * denominator (fi_interval fi)) of
               Inl f \<Rightarrow> Inl f
             | Inr ratio \<Rightarrow>
                 let code = (if ratio \<ge> 8 then 3 else if ratio \<ge> 4 then 2
                             else if ratio \<ge> 2 then 1 else 0) :: u32;
                     ratio = dcmipp_frates ! unat code
                 in Inr (None,
                         pixelproc\<lparr>frate := code,
                           src_interval := (src_interval pixelproc)
                             \<lparr>numerator := numerator (sink_interval pixelproc) * ratio,
                              denominator := denominator (sink_interval pixelproc)\<rparr>\<rparr>,
                         fi))"

subsection \<open>The scaler\<close>

text \<open>
  One of the two \<^verbatim>\<open>while\<close> loops of \<^verbatim>\<open>dcmipp_pixelproc_set_downscale\<close>:
  \<open>target\<close> is the compose dimension, \<open>dec\<close> the counter and \<open>post_dec\<close> the
  dimension being halved. The result is the counter and the dimension at loop exit.
\<close>

function decimation :: "u32 \<Rightarrow> u32 \<Rightarrow> u32 \<Rightarrow> u32 \<times> u32" where
  "decimation target dec post_dec =
     (if target * DCMIPP_MAX_DOWNSIZE_RATIO < post_dec
      then decimation target (dec + 1) (post_dec div 2)
      else (dec, post_dec))"
  by pat_completeness auto
termination
proof (relation "measure (\<lambda>(target, dec, post_dec). unat post_dec)")
  show "wf (measure (\<lambda>(target, dec, post_dec). unat post_dec))"
    by simp
next
  fix target dec post_dec :: u32
  assume "target * DCMIPP_MAX_DOWNSIZE_RATIO < post_dec"
  then have "0 < unat post_dec"
    by (metis unat_gt_0 word_not_simps(1))
  then have "unat post_dec div 2 < unat post_dec"
    by simp
  then show "((target, dec + 1, post_dec div 2), (target, dec, post_dec))
      \<in> measure (\<lambda>(target, dec, post_dec). unat post_dec)"
    by (simp add: unat_div)
qed

declare decimation.simps [simp del]

record downscale =
  hdec :: u32
  vdec :: u32
  hratio :: u32
  vratio :: u32
  hdiv :: u32
  vdiv :: u32

text \<open>
  The arithmetic of \<^verbatim>\<open>dcmipp_pixelproc_set_downscale\<close> (the decimation loops and
  the four divisions, in the order of the source), before any register is written.
\<close>

definition downscale_factors :: "v4l2_rect \<Rightarrow> v4l2_rect \<Rightarrow> fault + downscale" where
  "downscale_factors crp cmp =
     (let (hd, h_post_dec) = decimation (r_width cmp) 0 (r_width crp);
          (vd, v_post_dec) = decimation (r_height cmp) 0 (r_height crp)
      in case udiv (h_post_dec * DCMIPP_PIXELPROC_HVRATIO_CONS) (r_width cmp) of
           Inl f \<Rightarrow> Inl f
         | Inr hr \<Rightarrow>
        (case udiv (v_post_dec * DCMIPP_PIXELPROC_HVRATIO_CONS) (r_height cmp) of
           Inl f \<Rightarrow> Inl f
         | Inr vr \<Rightarrow>
        (case udiv (DCMIPP_PIXELPROC_HVDIV_CONS * r_width cmp) h_post_dec of
           Inl f \<Rightarrow> Inl f
         | Inr hv \<Rightarrow>
        (case udiv (DCMIPP_PIXELPROC_HVDIV_CONS * r_height cmp) v_post_dec of
           Inl f \<Rightarrow> Inl f
         | Inr vv \<Rightarrow>
             Inr \<lparr>hdec = hd, vdec = vd,
                  hratio = (if hr > DCMIPP_PIXELPROC_HVRATIO_MAX
                            then DCMIPP_PIXELPROC_HVRATIO_MAX else hr),
                  vratio = (if vr > DCMIPP_PIXELPROC_HVRATIO_MAX
                            then DCMIPP_PIXELPROC_HVRATIO_MAX else vr),
                  hdiv = (if hv > DCMIPP_PIXELPROC_HVDIV_MAX
                          then DCMIPP_PIXELPROC_HVDIV_MAX else hv),
                  vdiv = (if vv > DCMIPP_PIXELPROC_HVDIV_MAX
                          then DCMIPP_PIXELPROC_HVDIV_MAX else vv)\<rparr>))))"

subsection \<open>Registers\<close>

definition DCMIPP_PxFCTCR :: "u32 \<Rightarrow> u32" where
  "DCMIPP_PxFCTCR pid = (if pid = 1 then 0x900 else 0xD00)"
definition DCMIPP_PxCRSTR :: "u32 \<Rightarrow> u32" where
  "DCMIPP_PxCRSTR pid = (if pid = 1 then 0x904 else 0xD04)"
definition DCMIPP_PxCRSZR :: "u32 \<Rightarrow> u32" where
  "DCMIPP_PxCRSZR pid = (if pid = 1 then 0x908 else 0xD08)"
definition DCMIPP_PxDCCR :: "u32 \<Rightarrow> u32" where
  "DCMIPP_PxDCCR pid = (if pid = 1 then 0x90C else 0xD0C)"
definition DCMIPP_PxDSCR :: "u32 \<Rightarrow> u32" where
  "DCMIPP_PxDSCR pid = (if pid = 1 then 0x910 else 0xD10)"
definition DCMIPP_PxDSRTIOR :: "u32 \<Rightarrow> u32" where
  "DCMIPP_PxDSRTIOR pid = (if pid = 1 then 0x914 else 0xD14)"
definition DCMIPP_PxDSSZR :: "u32 \<Rightarrow> u32" where
  "DCMIPP_PxDSSZR pid = (if pid = 1 then 0x918 else 0xD18)"
definition DCMIPP_PxGMCR :: "u32 \<Rightarrow> u32" where
  "DCMIPP_PxGMCR pid = (if pid = 1 then 0x970 else 0xD70)"
definition DCMIPP_PxPPCR :: "u32 \<Rightarrow> u32" where
  "DCMIPP_PxPPCR pid = (if pid = 1 then 0x9C0 else 0xDC0)"
definition DCMIPP_P1YUVCR :: u32 where "DCMIPP_P1YUVCR = 0x980"
definition DCMIPP_P1YUVRR1 :: u32 where "DCMIPP_P1YUVRR1 = 0x984"

definition BIT :: "nat \<Rightarrow> u32" where
  "BIT n = push_bit n 1"

definition V4L2_CID_PIXELPROC_GAMMA_CORRECTION :: u32 where
  "V4L2_CID_PIXELPROC_GAMMA_CORRECTION = 0x00980900 OR 0x1001"

definition reg_emit :: "dcmipp_pixelproc_device \<Rightarrow> reg_op list \<Rightarrow> dcmipp_pixelproc_device" where
  "reg_emit pixelproc ops = pixelproc\<lparr>regs := regs pixelproc @ ops\<rparr>"

definition dcmipp_pixelproc_s_ctrl ::
  "dcmipp_common \<Rightarrow> dcmipp_pixelproc_device \<Rightarrow> u32 \<Rightarrow> s32
   \<Rightarrow> errno option \<times> dcmipp_pixelproc_device" where
  "dcmipp_pixelproc_s_ctrl env pixelproc ctrl_id val =
     (if \<not> pm_in_use env then (None, pixelproc)
      else if ctrl_id = V4L2_CID_PIXELPROC_GAMMA_CORRECTION
      then (None, reg_emit pixelproc
              [Reg_write (DCMIPP_PxGMCR (pipe_id pixelproc)) (if val \<noteq> 0 then BIT 0 else 0)])
      else (None, pixelproc))"

text \<open>
  Modelled from the spec: \<^verbatim>\<open>v4l2_ctrl_handler_setup\<close> belongs to the control
  framework, which is not among the sources. On stream start it re-applies the last
  written value of the one control the device has (gamma correction), through
  \<^verbatim>\<open>s_ctrl\<close>.
\<close>

definition v4l2_ctrl_handler_setup ::
  "dcmipp_common \<Rightarrow> dcmipp_pixelproc_device \<Rightarrow> errno option \<times> dcmipp_pixelproc_device" where
  "v4l2_ctrl_handler_setup env pixelproc =
     dcmipp_pixelproc_s_ctrl env pixelproc V4L2_CID_PIXELPROC_GAMMA_CORRECTION
       (ctrl_gamma pixelproc)"

definition dcmipp_pixelproc_colorconv_config ::
  "dcmipp_common \<Rightarrow> dcmipp_pixelproc_device \<Rightarrow> errno option \<times> dcmipp_pixelproc_device" where
  "dcmipp_pixelproc_colorconv_config env pixelproc =
     (case colorconv_configure env (sink_fmt pixelproc) (src_fmt pixelproc) of
        Inl e \<Rightarrow> (Some e, pixelproc)
      | Inr ccconf \<Rightarrow>
          let val = (if clamping ccconf then BIT 2 else 0)
                    OR (if clamping_as_rgb ccconf then BIT 1 else 0)
                    OR (if enable ccconf then BIT 0 else 0)
          in (None,
              reg_emit pixelproc
                (map (\<lambda>i. Reg_write (DCMIPP_P1YUVRR1 + 4 * of_nat i) (conv_matrix ccconf i))
                     [0 ..< 6]
                 @ [Reg_write DCMIPP_P1YUVCR val])))"

definition dcmipp_pixelproc_set_downscale ::
  "dcmipp_pixelproc_device \<Rightarrow> fault + dcmipp_pixelproc_device" where
  "dcmipp_pixelproc_set_downscale pixelproc =
     (case downscale_factors (crop pixelproc) (compose pixelproc) of
        Inl f \<Rightarrow> Inl f
      | Inr d \<Rightarrow>
          let pid = pipe_id pixelproc
          in Inr (reg_emit pixelproc
               ([Reg_clear (DCMIPP_PxDCCR pid) (BIT 0)]
                @ (if hdec d = 0 \<and> vdec d = 0 then []
                   else [Reg_write (DCMIPP_PxDCCR pid)
                           (push_bit 1 (hdec d) OR push_bit 3 (vdec d) OR BIT 0)])
                @ [Reg_clear (DCMIPP_PxDSCR pid) (BIT 31),
                   Reg_write (DCMIPP_PxDSRTIOR pid)
                     (push_bit 0 (hratio d) OR push_bit 16 (vratio d)),
                   Reg_write (DCMIPP_PxDSSZR pid)
                     (push_bit 0 (r_width (compose pixelproc))
                      OR push_bit 16 (r_height (compose pixelproc))),
                   Reg_write (DCMIPP_PxDSCR pid)
                     (push_bit 0 (hdiv d) OR push_bit 16 (vdiv d) OR BIT 31)])))"

definition dcmipp_pixelproc_configure_framerate ::
  "dcmipp_pixelproc_device \<Rightarrow> dcmipp_pixelproc_device" where
  "dcmipp_pixelproc_configure_framerate pixelproc =
     reg_emit pixelproc
       [Reg_clear (DCMIPP_PxFCTCR (pipe_id pixelproc)) 3,
        Reg_set (DCMIPP_PxFCTCR (pipe_id pixelproc)) (frate pixelproc)]"

subsection \<open>Streaming\<close>

text \<open>
  \<^verbatim>\<open>dcmipp_pixelproc_s_stream\<close>, statement by statement. \<open>enable\<close> is the C
  \<^verbatim>\<open>int\<close> argument.
\<close>

definition dcmipp_pixelproc_s_stream ::
  "dcmipp_common \<Rightarrow> dcmipp_pixelproc_device \<Rightarrow> int
   \<Rightarrow> fault + (errno option \<times> dcmipp_pixelproc_device)" where
  "dcmipp_pixelproc_s_stream env pixelproc0 enable_arg =
     (if enable_arg = 0 then Inr (None, pixelproc0)
      else
        let pixelproc = dcmipp_pixelproc_configure_framerate pixelproc0;
            pid = pipe_id pixelproc;
            pixelproc = reg_emit pixelproc
              [Reg_write (DCMIPP_PxCRSTR pid)
                 (push_bit 16 (r_top (crop pixelproc)) OR push_bit 0 (r_left (crop pixelproc))),
               Reg_write (DCMIPP_PxCRSZR pid)
                 (push_bit 0 (r_width (crop pixelproc))
                  OR push_bit 16 (r_height (crop pixelproc)) OR BIT 31)]
        in case dcmipp_pixelproc_set_downscale pixelproc of
             Inl f \<Rightarrow> Inl f
           | Inr pixelproc \<Rightarrow>
               (case (if pid = 1 then dcmipp_pixelproc_colorconv_config env pixelproc
                      else (None, pixelproc)) of
                  (Some e, pixelproc) \<Rightarrow> Inr (Some e, pixelproc)
                | (None, pixelproc) \<Rightarrow>
                    (case dcmipp_pixelproc_pix_map_by_code (mf_code (src_fmt pixelproc)) 1 of
                       None \<Rightarrow> Inr (Some EINVAL, pixelproc)
                     | Some vpix \<Rightarrow>
                         let val = (if swap_uv vpix \<noteq> 0 then ppcr_fmt vpix OR BIT 4
                                    else ppcr_fmt vpix)
                         in Inr (v4l2_ctrl_handler_setup env
                                  (reg_emit pixelproc [Reg_write (DCMIPP_PxPPCR pid) val])))))"

section \<open>Properties\<close>

lemmas media_bus_fmt_defs =
  MEDIA_BUS_FMT_RGB565_2X8_LE_def MEDIA_BUS_FMT_RGB888_1X24_def MEDIA_BUS_FMT_BGR888_1X24_def
  MEDIA_BUS_FMT_Y8_1X8_def MEDIA_BUS_FMT_UYVY8_1_5X8_def MEDIA_BUS_FMT_VYUY8_1_5X8_def
  MEDIA_BUS_FMT_YUYV8_1_5X8_def MEDIA_BUS_FMT_YVYU8_1_5X8_def MEDIA_BUS_FMT_UYVY8_2X8_def
  MEDIA_BUS_FMT_VYUY8_2X8_def MEDIA_BUS_FMT_YUYV8_2X8_def MEDIA_BUS_FMT_YVYU8_2X8_def
  MEDIA_BUS_FMT_YUYV8_1X16_def MEDIA_BUS_FMT_YVYU8_1X16_def MEDIA_BUS_FMT_YUV8_1X24_def
  MEDIA_BUS_FMT_SBGGR8_1X8_def

lemmas v4l2_defs =
  V4L2_SEL_TGT_CROP_def V4L2_SEL_TGT_CROP_DEFAULT_def V4L2_SEL_TGT_CROP_BOUNDS_def
  V4L2_SEL_TGT_COMPOSE_def V4L2_SUBDEV_FORMAT_TRY_def V4L2_SUBDEV_FORMAT_ACTIVE_def
  V4L2_FIELD_ANY_def V4L2_FIELD_NONE_def V4L2_FIELD_ALTERNATE_def V4L2_COLORSPACE_REC709_def
  IS_SINK_def IS_SRC_def

lemmas scaler_defs =
  DCMIPP_MAX_DOWNSIZE_RATIO_def DCMIPP_MAX_DOWNSCALE_RATIO_def DCMIPP_PIXELPROC_HVRATIO_CONS_def
  DCMIPP_PIXELPROC_HVRATIO_MAX_def DCMIPP_PIXELPROC_HVDIV_CONS_def
  DCMIPP_PIXELPROC_HVDIV_MAX_def udiv_def

lemmas geometry_defs =
  dcmipp_pixelproc_adjust_crop_def v4l2_rect_map_inside_def v4l2_rect_set_max_size_def
  v4l2_rect_set_min_size_def crop_min_def dcmipp_pixelproc_get_crop_bound_def
  compose_clamp_def selection_store_def

lemmas adjust_fmt_defs =
  dcmipp_pixelproc_adjust_fmt_def dcmipp_pixelproc_pix_map_by_code_def
  dcmipp_pixelproc_sink_pix_map_list_def dcmipp_pixelproc_src_pix_map_list_def
  PIXMAP_MBUS_PPCR_SWAPUV_def clamp_t_def PIXELPROC_MEDIA_BUS_SRC_FMT_DEFAULT_def
  PIXELPROC_MEDIA_BUS_SINK_FMT_DEFAULT_def

subsection \<open>The constructed device\<close>

lemma ent_init_main:
  "dcmipp_pixelproc_ent_init dcmipp_common_example ''dcmipp_main_postproc'' = Inr pixelproc_main"
  by (simp add: dcmipp_pixelproc_ent_init_def dcmipp_common_example_def pixelproc_main_def
      dcmipp_name_to_pipe_id_def fmt_default_def DCMIPP_FMT_WIDTH_DEFAULT_def
      DCMIPP_FMT_HEIGHT_DEFAULT_def PIXELPROC_MEDIA_BUS_SRC_FMT_DEFAULT_def
      PIXELPROC_MEDIA_BUS_SINK_FMT_DEFAULT_def media_bus_fmt_defs v4l2_defs Let_def)

lemma ent_init_bad_name:
  "dcmipp_pixelproc_ent_init dcmipp_common_example ''dcmipp_dump_postproc'' = Inl EIO"
  by (simp add: dcmipp_pixelproc_ent_init_def dcmipp_common_example_def
      dcmipp_name_to_pipe_id_def Let_def)

subsection \<open>Streaming only issues register operations\<close>

lemma regs_frame_refl: "\<exists>ops. d = d\<lparr>regs := ops\<rparr>"
proof
  show "d = d\<lparr>regs := regs d\<rparr>" by simp
qed

lemma set_downscale_frame:
  "dcmipp_pixelproc_set_downscale d = Inr d' \<Longrightarrow> \<exists>ops. d' = d\<lparr>regs := ops\<rparr>"
  by (auto simp: dcmipp_pixelproc_set_downscale_def reg_emit_def Let_def split: sum.splits)

lemma colorconv_config_frame:
  "dcmipp_pixelproc_colorconv_config env d = (r, d') \<Longrightarrow> \<exists>ops. d' = d\<lparr>regs := ops\<rparr>"
  by (auto simp: dcmipp_pixelproc_colorconv_config_def reg_emit_def Let_def regs_frame_refl
       split: sum.splits)

lemma ctrl_handler_setup_frame:
  "v4l2_ctrl_handler_setup env d = (r, d') \<Longrightarrow> \<exists>ops. d' = d\<lparr>regs := ops\<rparr>"
  by (auto simp: v4l2_ctrl_handler_setup_def dcmipp_pixelproc_s_ctrl_def reg_emit_def
       regs_frame_refl split: if_splits)

lemma s_stream_unfold:
  "en \<noteq> 0 \<Longrightarrow>
   dcmipp_pixelproc_s_stream env d en =
     (case dcmipp_pixelproc_set_downscale
             (reg_emit (dcmipp_pixelproc_configure_framerate d)
                [Reg_write (DCMIPP_PxCRSTR (pipe_id d))
                   (push_bit 16 (r_top (crop d)) OR push_bit 0 (r_left (crop d))),
                 Reg_write (DCMIPP_PxCRSZR (pipe_id d))
                   (push_bit 0 (r_width (crop d)) OR push_bit 16 (r_height (crop d))
                    OR BIT 31)]) of
        Inl f \<Rightarrow> Inl f
      | Inr d2 \<Rightarrow>
          (case (if pipe_id d = 1 then dcmipp_pixelproc_colorconv_config env d2
                 else (None, d2)) of
             (Some e, d3) \<Rightarrow> Inr (Some e, d3)
           | (None, d3) \<Rightarrow>
               (case dcmipp_pixelproc_pix_map_by_code (mf_code (src_fmt d3)) 1 of
                  None \<Rightarrow> Inr (Some EINVAL, d3)
                | Some vpix \<Rightarrow>
                    Inr (v4l2_ctrl_handler_setup env
                      (reg_emit d3 [Reg_write (DCMIPP_PxPPCR (pipe_id d))
                         (if swap_uv vpix \<noteq> 0 then ppcr_fmt vpix OR BIT 4
                          else ppcr_fmt vpix)])))))"
  unfolding dcmipp_pixelproc_s_stream_def Let_def
  by (simp add: dcmipp_pixelproc_configure_framerate_def reg_emit_def
        cong: sum.case_cong option.case_cong prod.case_cong)

lemma s_stream_frame:
  assumes "dcmipp_pixelproc_s_stream env d en = Inr (r, d')"
  shows "\<exists>ops. d' = d\<lparr>regs := ops\<rparr>"
proof (cases "en = 0")
  case True
  with assms have "d' = d"
    by (simp add: dcmipp_pixelproc_s_stream_def)
  then show ?thesis
    by (simp add: regs_frame_refl)
next
  case False
  define d1 where "d1 = reg_emit (dcmipp_pixelproc_configure_framerate d)
     [Reg_write (DCMIPP_PxCRSTR (pipe_id d))
        (push_bit 16 (r_top (crop d)) OR push_bit 0 (r_left (crop d))),
      Reg_write (DCMIPP_PxCRSZR (pipe_id d))
        (push_bit 0 (r_width (crop d)) OR push_bit 16 (r_height (crop d)) OR BIT 31)]"
  obtain o1 where d1: "d1 = d\<lparr>regs := o1\<rparr>"
    by (simp add: d1_def dcmipp_pixelproc_configure_framerate_def reg_emit_def)
  note unf = s_stream_unfold [OF False, of env d, folded d1_def]
  from assms obtain d2 where d2: "dcmipp_pixelproc_set_downscale d1 = Inr d2"
    unfolding unf by (cases "dcmipp_pixelproc_set_downscale d1") simp_all
  from set_downscale_frame [OF d2] d1 obtain o2 where d2f: "d2 = d\<lparr>regs := o2\<rparr>"
    by auto
  obtain r3 d3 where d3: "(if pipe_id d = 1 then dcmipp_pixelproc_colorconv_config env d2
       else (None, d2)) = (r3, d3)"
    by fastforce
  have "\<exists>ops. d3 = d2\<lparr>regs := ops\<rparr>"
  proof (cases "pipe_id d = 1")
    case True
    with d3 show ?thesis
      by (simp add: colorconv_config_frame)
  next
    case False
    with d3 show ?thesis
      by (simp add: regs_frame_refl)
  qed
  with d2f obtain o3 where d3f: "d3 = d\<lparr>regs := o3\<rparr>"
    by auto
  have eq: "dcmipp_pixelproc_s_stream env d en = (case r3 of
        Some e \<Rightarrow> Inr (Some e, d3)
      | None \<Rightarrow>
         (case dcmipp_pixelproc_pix_map_by_code (mf_code (src_fmt d3)) 1 of
            None \<Rightarrow> Inr (Some EINVAL, d3)
          | Some vpix \<Rightarrow>
              Inr (v4l2_ctrl_handler_setup env
                (reg_emit d3 [Reg_write (DCMIPP_PxPPCR (pipe_id d))
                   (if swap_uv vpix \<noteq> 0 then ppcr_fmt vpix OR BIT 4
                    else ppcr_fmt vpix)]))))"
    by (cases r3) (simp_all add: unf d2 d3)
  note res = assms [unfolded eq]
  show ?thesis
  proof (cases r3)
    case (Some e)
    with res d3f show ?thesis by auto
  next
    case None
    show ?thesis
    proof (cases "dcmipp_pixelproc_pix_map_by_code (mf_code (src_fmt d3)) 1")
      case None
      with res \<open>r3 = None\<close> d3f show ?thesis by auto
    next
      case (Some vpix)
      with res \<open>r3 = None\<close> obtain ops where
        "d' = (reg_emit d3 [Reg_write (DCMIPP_PxPPCR (pipe_id d))
                   (if swap_uv vpix \<noteq> 0 then ppcr_fmt vpix OR BIT 4
                    else ppcr_fmt vpix)])\<lparr>regs := ops\<rparr>"
        by (auto dest: ctrl_handler_setup_frame)
      with d3f show ?thesis
        by (auto simp: reg_emit_def)
    qed
  qed
qed

lemma s_stream_keeps_streaming:
  "dcmipp_pixelproc_s_stream env d en = Inr (r, d') \<Longrightarrow> streaming d' = streaming d"
  by (auto dest: s_stream_frame)

section \<open>The streaming state machine\<close>

text \<open>
  C1: the start-streaming signal is \<^verbatim>\<open>s_stream\<close> with a nonzero argument; the claim
  is that a successful start leaves the flag \<open>streaming\<close> true and that a stop leaves
  it false. The function never assigns the flag. On the main pipe as constructed
  (flag false), a start succeeds, issues register operations and leaves every other
  field, the flag included, as it was; and on a device whose flag is true a stop
  returns the device unchanged, flag still true.
\<close>

theorem s_stream_never_sets_streaming:
  "dcmipp_pixelproc_ent_init dcmipp_common_example ''dcmipp_main_postproc'' = Inr pixelproc_main
   \<and> streaming pixelproc_main = False
   \<and> (case dcmipp_pixelproc_s_stream dcmipp_common_example pixelproc_main 1 of
        Inr (ret, d) \<Rightarrow> ret = None \<and> streaming d = False \<and> d = pixelproc_main\<lparr>regs := regs d\<rparr>
      | Inl f \<Rightarrow> False)
   \<and> dcmipp_pixelproc_s_stream dcmipp_common_example (pixelproc_main\<lparr>streaming := True\<rparr>) 0
       = Inr (None, pixelproc_main\<lparr>streaming := True\<rparr>)"
proof -
  have a: "streaming pixelproc_main = False"
    by (simp add: pixelproc_main_def)
  have b: "(case dcmipp_pixelproc_s_stream dcmipp_common_example pixelproc_main 1 of
        Inr (ret, d) \<Rightarrow> ret = None \<and> streaming d = False \<and> d = pixelproc_main\<lparr>regs := regs d\<rparr>
      | Inl f \<Rightarrow> False)"
    by code_simp
  have c: "dcmipp_pixelproc_s_stream dcmipp_common_example (pixelproc_main\<lparr>streaming := True\<rparr>) 0
       = Inr (None, pixelproc_main\<lparr>streaming := True\<rparr>)"
    by (simp add: dcmipp_pixelproc_s_stream_def)
  show ?thesis using ent_init_main a b c by blast
qed

text \<open>
  \<^verbatim>\<open>set_selection\<close> does not read the flag: whatever its value, the call does the
  same and hands the flag back.
\<close>

lemma set_selection_never_reads_streaming:
  "dcmipp_pixelproc_set_selection env (d\<lparr>streaming := b\<rparr>) state s =
     (case dcmipp_pixelproc_set_selection env d state s of
        (ret, d', state', s') \<Rightarrow> (ret, d'\<lparr>streaming := b\<rparr>, state', s'))"
  by (simp add: dcmipp_pixelproc_set_selection_def selection_store_def Let_def
        split: option.splits)

text \<open>
  C2: on a streaming pipe, \<^verbatim>\<open>set_selection\<close> with \<open>which = active\<close> is claimed
  to return Busy and to leave crop and compose alone. On the main pipe as constructed
  and then started (the stream start returns 0), an active Compose request and an
  active Crop request both return 0 and overwrite the stored rectangles and the source
  size: the function has no streaming test, unlike \<^verbatim>\<open>set_fmt\<close> and
  \<^verbatim>\<open>s_frame_interval\<close>.
\<close>

theorem set_selection_on_started_pipe:
  "dcmipp_pixelproc_ent_init dcmipp_common_example ''dcmipp_main_postproc'' = Inr pixelproc_main
   \<and> (case dcmipp_pixelproc_s_stream dcmipp_common_example pixelproc_main 1 of
        Inr (ret, d) \<Rightarrow>
          ret = None
          \<and> compose d = \<lparr>r_left = 0, r_top = 0, r_width = 640, r_height = 480\<rparr>
          \<and> dcmipp_pixelproc_set_selection dcmipp_common_example d try_state_init
              \<lparr>ss_which = V4L2_SUBDEV_FORMAT_ACTIVE, ss_pad = 0,
               ss_target = V4L2_SEL_TGT_COMPOSE,
               ss_r = \<lparr>r_left = 0, r_top = 0, r_width = 320, r_height = 240\<rparr>\<rparr>
            = (None,
               d\<lparr>compose := \<lparr>r_left = 0, r_top = 0, r_width = 320, r_height = 240\<rparr>,
                 src_fmt := (src_fmt d)\<lparr>mf_width := 320, mf_height := 240\<rparr>\<rparr>,
               try_state_init,
               \<lparr>ss_which = V4L2_SUBDEV_FORMAT_ACTIVE, ss_pad = 0,
                ss_target = V4L2_SEL_TGT_COMPOSE,
                ss_r = \<lparr>r_left = 0, r_top = 0, r_width = 320, r_height = 240\<rparr>\<rparr>)
          \<and> dcmipp_pixelproc_set_selection dcmipp_common_example d try_state_init
              \<lparr>ss_which = V4L2_SUBDEV_FORMAT_ACTIVE, ss_pad = 0,
               ss_target = V4L2_SEL_TGT_CROP,
               ss_r = \<lparr>r_left = 8, r_top = 8, r_width = 320, r_height = 240\<rparr>\<rparr>
            = (None,
               d\<lparr>crop := \<lparr>r_left = 8, r_top = 8, r_width = 320, r_height = 240\<rparr>,
                 compose := \<lparr>r_left = 8, r_top = 8, r_width = 320, r_height = 240\<rparr>,
                 src_fmt := (src_fmt d)\<lparr>mf_width := 320, mf_height := 240\<rparr>\<rparr>,
               try_state_init,
               \<lparr>ss_which = V4L2_SUBDEV_FORMAT_ACTIVE, ss_pad = 0,
                ss_target = V4L2_SEL_TGT_CROP,
                ss_r = \<lparr>r_left = 8, r_top = 8, r_width = 320, r_height = 240\<rparr>\<rparr>)
      | Inl f \<Rightarrow> False)"
proof -
  have b: "(case dcmipp_pixelproc_s_stream dcmipp_common_example pixelproc_main 1 of
        Inr (ret, d) \<Rightarrow>
          ret = None
          \<and> compose d = \<lparr>r_left = 0, r_top = 0, r_width = 640, r_height = 480\<rparr>
          \<and> dcmipp_pixelproc_set_selection dcmipp_common_example d try_state_init
              \<lparr>ss_which = V4L2_SUBDEV_FORMAT_ACTIVE, ss_pad = 0,
               ss_target = V4L2_SEL_TGT_COMPOSE,
               ss_r = \<lparr>r_left = 0, r_top = 0, r_width = 320, r_height = 240\<rparr>\<rparr>
            = (None,
               d\<lparr>compose := \<lparr>r_left = 0, r_top = 0, r_width = 320, r_height = 240\<rparr>,
                 src_fmt := (src_fmt d)\<lparr>mf_width := 320, mf_height := 240\<rparr>\<rparr>,
               try_state_init,
               \<lparr>ss_which = V4L2_SUBDEV_FORMAT_ACTIVE, ss_pad = 0,
                ss_target = V4L2_SEL_TGT_COMPOSE,
                ss_r = \<lparr>r_left = 0, r_top = 0, r_width = 320, r_height = 240\<rparr>\<rparr>)
          \<and> dcmipp_pixelproc_set_selection dcmipp_common_example d try_state_init
              \<lparr>ss_which = V4L2_SUBDEV_FORMAT_ACTIVE, ss_pad = 0,
               ss_target = V4L2_SEL_TGT_CROP,
               ss_r = \<lparr>r_left = 8, r_top = 8, r_width = 320, r_height = 240\<rparr>\<rparr>
            = (None,
               d\<lparr>crop := \<lparr>r_left = 8, r_top = 8, r_width = 320, r_height = 240\<rparr>,
                 compose := \<lparr>r_left = 8, r_top = 8, r_width = 320, r_height = 240\<rparr>,
                 src_fmt := (src_fmt d)\<lparr>mf_width := 320, mf_height := 240\<rparr>\<rparr>,
               try_state_init,
               \<lparr>ss_which = V4L2_SUBDEV_FORMAT_ACTIVE, ss_pad = 0,
                ss_target = V4L2_SEL_TGT_CROP,
                ss_r = \<lparr>r_left = 8, r_top = 8, r_width = 320, r_height = 240\<rparr>\<rparr>)
      | Inl f \<Rightarrow> False)"
    by code_simp
  show ?thesis using ent_init_main b by blast
qed

section \<open>The scaler\<close>

text \<open>
  C3, as stated: for crop 640x480 and compose 640x480 the scaler gives \<open>hdec = vdec = 0\<close>,
  \<open>hratio = vratio = 8192\<close> and \<open>hdiv = vdiv = 1024\<close>. It does not: 1024 exceeds
  \<^verbatim>\<open>DCMIPP_PIXELPROC_HVDIV_MAX\<close>.
\<close>

theorem downscale_identity_counterexample:
  "\<not> (downscale_factors \<lparr>r_left = 0, r_top = 0, r_width = 640, r_height = 480\<rparr>
         \<lparr>r_left = 0, r_top = 0, r_width = 640, r_height = 480\<rparr>
       = Inr \<lparr>hdec = 0, vdec = 0, hratio = 8192, vratio = 8192, hdiv = 1024, vdiv = 1024\<rparr>)"
  by (simp add: downscale_factors_def decimation.simps scaler_defs)

text \<open>
  C3, amended: for crop size 640x480 and compose size 640x480 (whatever the origins) the
  scaler gives \<open>hdec = vdec = 0\<close>, \<open>hratio = vratio = 8192\<close> and
  \<open>hdiv = vdiv = 1023\<close>: the quotient 1024 is clamped to the maximum 1023.
\<close>

theorem downscale_identity:
  "downscale_factors (crp\<lparr>r_width := 640, r_height := 480\<rparr>)
     (cmp\<lparr>r_width := 640, r_height := 480\<rparr>)
   = Inr \<lparr>hdec = 0, vdec = 0, hratio = 8192, vratio = 8192, hdiv = 1023, vdiv = 1023\<rparr>"
  by (simp add: downscale_factors_def decimation.simps scaler_defs)

text \<open>
  C5: every compose rectangle that the Compose-target clamp can store is claimed to be
  nonzero, so that the scaler's divisions are defined. From the constructed device, an
  active crop of 32x32 followed by an active compose request of 0x0 stores a compose of
  0x0 (32 / 64 = 0, so there is nothing to clamp up to); the scaler then divides by the
  compose width, and starting the stream faults.
\<close>

theorem compose_clamp_stores_zero:
  "dcmipp_pixelproc_set_selection dcmipp_common_example pixelproc_main state
      \<lparr>ss_which = V4L2_SUBDEV_FORMAT_ACTIVE, ss_pad = 0, ss_target = V4L2_SEL_TGT_CROP,
       ss_r = \<lparr>r_left = 0, r_top = 0, r_width = 32, r_height = 32\<rparr>\<rparr>
    = (None,
       pixelproc_main\<lparr>
         crop := \<lparr>r_left = 0, r_top = 0, r_width = 32, r_height = 32\<rparr>,
         compose := \<lparr>r_left = 0, r_top = 0, r_width = 32, r_height = 32\<rparr>,
         src_fmt := (src_fmt pixelproc_main)\<lparr>mf_width := 32, mf_height := 32\<rparr>\<rparr>,
       state,
       \<lparr>ss_which = V4L2_SUBDEV_FORMAT_ACTIVE, ss_pad = 0, ss_target = V4L2_SEL_TGT_CROP,
        ss_r = \<lparr>r_left = 0, r_top = 0, r_width = 32, r_height = 32\<rparr>\<rparr>)
   \<and> dcmipp_pixelproc_set_selection dcmipp_common_example
      (pixelproc_main\<lparr>
         crop := \<lparr>r_left = 0, r_top = 0, r_width = 32, r_height = 32\<rparr>,
         compose := \<lparr>r_left = 0, r_top = 0, r_width = 32, r_height = 32\<rparr>,
         src_fmt := (src_fmt pixelproc_main)\<lparr>mf_width := 32, mf_height := 32\<rparr>\<rparr>)
      state
      \<lparr>ss_which = V4L2_SUBDEV_FORMAT_ACTIVE, ss_pad = 0, ss_target = V4L2_SEL_TGT_COMPOSE,
       ss_r = \<lparr>r_left = 0, r_top = 0, r_width = 0, r_height = 0\<rparr>\<rparr>
    = (None,
       pixelproc_main\<lparr>
         crop := \<lparr>r_left = 0, r_top = 0, r_width = 32, r_height = 32\<rparr>,
         compose := \<lparr>r_left = 0, r_top = 0, r_width = 0, r_height = 0\<rparr>,
         src_fmt := (src_fmt pixelproc_main)\<lparr>mf_width := 0, mf_height := 0\<rparr>\<rparr>,
       state,
       \<lparr>ss_which = V4L2_SUBDEV_FORMAT_ACTIVE, ss_pad = 0, ss_target = V4L2_SEL_TGT_COMPOSE,
        ss_r = \<lparr>r_left = 0, r_top = 0, r_width = 0, r_height = 0\<rparr>\<rparr>)
   \<and> downscale_factors \<lparr>r_left = 0, r_top = 0, r_width = 32, r_height = 32\<rparr>
        \<lparr>r_left = 0, r_top = 0, r_width = 0, r_height = 0\<rparr> = Inl DivisionByZero
   \<and> dcmipp_pixelproc_s_stream dcmipp_common_example
      (pixelproc_main\<lparr>
         crop := \<lparr>r_left = 0, r_top = 0, r_width = 32, r_height = 32\<rparr>,
         compose := \<lparr>r_left = 0, r_top = 0, r_width = 0, r_height = 0\<rparr>,
         src_fmt := (src_fmt pixelproc_main)\<lparr>mf_width := 0, mf_height := 0\<rparr>\<rparr>) 1
     = Inl DivisionByZero"
proof -
  have a: "dcmipp_pixelproc_set_selection dcmipp_common_example pixelproc_main state
      \<lparr>ss_which = V4L2_SUBDEV_FORMAT_ACTIVE, ss_pad = 0, ss_target = V4L2_SEL_TGT_CROP,
       ss_r = \<lparr>r_left = 0, r_top = 0, r_width = 32, r_height = 32\<rparr>\<rparr>
    = (None,
       pixelproc_main\<lparr>
         crop := \<lparr>r_left = 0, r_top = 0, r_width = 32, r_height = 32\<rparr>,
         compose := \<lparr>r_left = 0, r_top = 0, r_width = 32, r_height = 32\<rparr>,
         src_fmt := (src_fmt pixelproc_main)\<lparr>mf_width := 32, mf_height := 32\<rparr>\<rparr>,
       state,
       \<lparr>ss_which = V4L2_SUBDEV_FORMAT_ACTIVE, ss_pad = 0, ss_target = V4L2_SEL_TGT_CROP,
        ss_r = \<lparr>r_left = 0, r_top = 0, r_width = 32, r_height = 32\<rparr>\<rparr>)"
    by (simp add: dcmipp_pixelproc_set_selection_def geometry_defs v4l2_defs pixelproc_main_def
         dcmipp_common_example_def Let_def)
  have b: "dcmipp_pixelproc_set_selection dcmipp_common_example
      (pixelproc_main\<lparr>
         crop := \<lparr>r_left = 0, r_top = 0, r_width = 32, r_height = 32\<rparr>,
         compose := \<lparr>r_left = 0, r_top = 0, r_width = 32, r_height = 32\<rparr>,
         src_fmt := (src_fmt pixelproc_main)\<lparr>mf_width := 32, mf_height := 32\<rparr>\<rparr>)
      state
      \<lparr>ss_which = V4L2_SUBDEV_FORMAT_ACTIVE, ss_pad = 0, ss_target = V4L2_SEL_TGT_COMPOSE,
       ss_r = \<lparr>r_left = 0, r_top = 0, r_width = 0, r_height = 0\<rparr>\<rparr>
    = (None,
       pixelproc_main\<lparr>
         crop := \<lparr>r_left = 0, r_top = 0, r_width = 32, r_height = 32\<rparr>,
         compose := \<lparr>r_left = 0, r_top = 0, r_width = 0, r_height = 0\<rparr>,
         src_fmt := (src_fmt pixelproc_main)\<lparr>mf_width := 0, mf_height := 0\<rparr>\<rparr>,
       state,
       \<lparr>ss_which = V4L2_SUBDEV_FORMAT_ACTIVE, ss_pad = 0, ss_target = V4L2_SEL_TGT_COMPOSE,
        ss_r = \<lparr>r_left = 0, r_top = 0, r_width = 0, r_height = 0\<rparr>\<rparr>)"
    by (simp add: dcmipp_pixelproc_set_selection_def geometry_defs v4l2_defs pixelproc_main_def
         DCMIPP_MAX_DOWNSCALE_RATIO_def Let_def)
  have c: "downscale_factors \<lparr>r_left = 0, r_top = 0, r_width = 32, r_height = 32\<rparr>
        \<lparr>r_left = 0, r_top = 0, r_width = 0, r_height = 0\<rparr> = Inl DivisionByZero"
    by code_simp
  have d: "dcmipp_pixelproc_s_stream dcmipp_common_example
      (pixelproc_main\<lparr>
         crop := \<lparr>r_left = 0, r_top = 0, r_width = 32, r_height = 32\<rparr>,
         compose := \<lparr>r_left = 0, r_top = 0, r_width = 0, r_height = 0\<rparr>,
         src_fmt := (src_fmt pixelproc_main)\<lparr>mf_width := 0, mf_height := 0\<rparr>\<rparr>) 1
     = Inl DivisionByZero"
    by code_simp
  show ?thesis using a b c d by blast
qed

text \<open>
  C6: for compose sizes between crop / 64 and crop the scaler is claimed to give
  \<open>hdec \<le> 3\<close>. From the constructed device, an active crop of 127x64 and an active
  compose of 1x64 (1 = 127 / 64) are both stored as requested; the horizontal loop then
  halves 127 four times (63, 31, 15, 7), so \<open>hdec = 4\<close>, and the stream start writes
  \<open>4 << 1 | 0 << 3 | 1 = 9\<close> to the decimation register.
\<close>

theorem decimation_reaches_four:
  "dcmipp_pixelproc_set_selection dcmipp_common_example pixelproc_main state
      \<lparr>ss_which = V4L2_SUBDEV_FORMAT_ACTIVE, ss_pad = 0, ss_target = V4L2_SEL_TGT_CROP,
       ss_r = \<lparr>r_left = 0, r_top = 0, r_width = 127, r_height = 64\<rparr>\<rparr>
    = (None,
       pixelproc_main\<lparr>
         crop := \<lparr>r_left = 0, r_top = 0, r_width = 127, r_height = 64\<rparr>,
         compose := \<lparr>r_left = 0, r_top = 0, r_width = 127, r_height = 64\<rparr>,
         src_fmt := (src_fmt pixelproc_main)\<lparr>mf_width := 127, mf_height := 64\<rparr>\<rparr>,
       state,
       \<lparr>ss_which = V4L2_SUBDEV_FORMAT_ACTIVE, ss_pad = 0, ss_target = V4L2_SEL_TGT_CROP,
        ss_r = \<lparr>r_left = 0, r_top = 0, r_width = 127, r_height = 64\<rparr>\<rparr>)
   \<and> dcmipp_pixelproc_set_selection dcmipp_common_example
      (pixelproc_main\<lparr>
         crop := \<lparr>r_left = 0, r_top = 0, r_width = 127, r_height = 64\<rparr>,
         compose := \<lparr>r_left = 0, r_top = 0, r_width = 127, r_height = 64\<rparr>,
         src_fmt := (src_fmt pixelproc_main)\<lparr>mf_width := 127, mf_height := 64\<rparr>\<rparr>)
      state
      \<lparr>ss_which = V4L2_SUBDEV_FORMAT_ACTIVE, ss_pad = 0, ss_target = V4L2_SEL_TGT_COMPOSE,
       ss_r = \<lparr>r_left = 0, r_top = 0, r_width = 1, r_height = 64\<rparr>\<rparr>
    = (None,
       pixelproc_main\<lparr>
         crop := \<lparr>r_left = 0, r_top = 0, r_width = 127, r_height = 64\<rparr>,
         compose := \<lparr>r_left = 0, r_top = 0, r_width = 1, r_height = 64\<rparr>,
         src_fmt := (src_fmt pixelproc_main)\<lparr>mf_width := 1, mf_height := 64\<rparr>\<rparr>,
       state,
       \<lparr>ss_which = V4L2_SUBDEV_FORMAT_ACTIVE, ss_pad = 0, ss_target = V4L2_SEL_TGT_COMPOSE,
        ss_r = \<lparr>r_left = 0, r_top = 0, r_width = 1, r_height = 64\<rparr>\<rparr>)
   \<and> downscale_factors \<lparr>r_left = 0, r_top = 0, r_width = 127, r_height = 64\<rparr>
        \<lparr>r_left = 0, r_top = 0, r_width = 1, r_height = 64\<rparr>
     = Inr \<lparr>hdec = 4, vdec = 0, hratio = 57344, vratio = 8192, hdiv = 146, vdiv = 1023\<rparr>
   \<and> (case dcmipp_pixelproc_s_stream dcmipp_common_example
      (pixelproc_main\<lparr>
         crop := \<lparr>r_left = 0, r_top = 0, r_width = 127, r_height = 64\<rparr>,
         compose := \<lparr>r_left = 0, r_top = 0, r_width = 1, r_height = 64\<rparr>,
         src_fmt := (src_fmt pixelproc_main)\<lparr>mf_width := 1, mf_height := 64\<rparr>\<rparr>) 1 of
        Inr (ret, d) \<Rightarrow> ret = None \<and> List.member (regs d) (Reg_write (DCMIPP_PxDCCR 1) 9)
      | Inl f \<Rightarrow> False)"
proof -
  have a: "dcmipp_pixelproc_set_selection dcmipp_common_example pixelproc_main state
      \<lparr>ss_which = V4L2_SUBDEV_FORMAT_ACTIVE, ss_pad = 0, ss_target = V4L2_SEL_TGT_CROP,
       ss_r = \<lparr>r_left = 0, r_top = 0, r_width = 127, r_height = 64\<rparr>\<rparr>
    = (None,
       pixelproc_main\<lparr>
         crop := \<lparr>r_left = 0, r_top = 0, r_width = 127, r_height = 64\<rparr>,
         compose := \<lparr>r_left = 0, r_top = 0, r_width = 127, r_height = 64\<rparr>,
         src_fmt := (src_fmt pixelproc_main)\<lparr>mf_width := 127, mf_height := 64\<rparr>\<rparr>,
       state,
       \<lparr>ss_which = V4L2_SUBDEV_FORMAT_ACTIVE, ss_pad = 0, ss_target = V4L2_SEL_TGT_CROP,
        ss_r = \<lparr>r_left = 0, r_top = 0, r_width = 127, r_height = 64\<rparr>\<rparr>)"
    by (simp add: dcmipp_pixelproc_set_selection_def geometry_defs v4l2_defs pixelproc_main_def
         dcmipp_common_example_def Let_def)
  have b: "dcmipp_pixelproc_set_selection dcmipp_common_example
      (pixelproc_main\<lparr>
         crop := \<lparr>r_left = 0, r_top = 0, r_width = 127, r_height = 64\<rparr>,
         compose := \<lparr>r_left = 0, r_top = 0, r_width = 127, r_height = 64\<rparr>,
         src_fmt := (src_fmt pixelproc_main)\<lparr>mf_width := 127, mf_height := 64\<rparr>\<rparr>)
      state
      \<lparr>ss_which = V4L2_SUBDEV_FORMAT_ACTIVE, ss_pad = 0, ss_target = V4L2_SEL_TGT_COMPOSE,
       ss_r = \<lparr>r_left = 0, r_top = 0, r_width = 1, r_height = 64\<rparr>\<rparr>
    = (None,
       pixelproc_main\<lparr>
         crop := \<lparr>r_left = 0, r_top = 0, r_width = 127, r_height = 64\<rparr>,
         compose := \<lparr>r_left = 0, r_top = 0, r_width = 1, r_height = 64\<rparr>,
         src_fmt := (src_fmt pixelproc_main)\<lparr>mf_width := 1, mf_height := 64\<rparr>\<rparr>,
       state,
       \<lparr>ss_which = V4L2_SUBDEV_FORMAT_ACTIVE, ss_pad = 0, ss_target = V4L2_SEL_TGT_COMPOSE,
        ss_r = \<lparr>r_left = 0, r_top = 0, r_width = 1, r_height = 64\<rparr>\<rparr>)"
    by (simp add: dcmipp_pixelproc_set_selection_def geometry_defs v4l2_defs pixelproc_main_def
         DCMIPP_MAX_DOWNSCALE_RATIO_def Let_def)
  have c: "downscale_factors \<lparr>r_left = 0, r_top = 0, r_width = 127, r_height = 64\<rparr>
        \<lparr>r_left = 0, r_top = 0, r_width = 1, r_height = 64\<rparr>
     = Inr \<lparr>hdec = 4, vdec = 0, hratio = 57344, vratio = 8192, hdiv = 146, vdiv = 1023\<rparr>"
    by code_simp
  have d: "(case dcmipp_pixelproc_s_stream dcmipp_common_example
      (pixelproc_main\<lparr>
         crop := \<lparr>r_left = 0, r_top = 0, r_width = 127, r_height = 64\<rparr>,
         compose := \<lparr>r_left = 0, r_top = 0, r_width = 1, r_height = 64\<rparr>,
         src_fmt := (src_fmt pixelproc_main)\<lparr>mf_width := 1, mf_height := 64\<rparr>\<rparr>) 1 of
        Inr (ret, d) \<Rightarrow> ret = None \<and> List.member (regs d) (Reg_write (DCMIPP_PxDCCR 1) 9)
      | Inl f \<Rightarrow> False)"
    by code_simp
  show ?thesis using a b c d by blast
qed

section \<open>Frame intervals\<close>

text \<open>
  C4, as stated: with sink interval 1/30, a requested source interval of 1/240 gives
  frame-skip code 3 and the source interval 8/30. It does not: the ratio is
  \<open>30 * 1 div (1 * 240) = 0\<close>.
\<close>

theorem s_frame_interval_240_counterexample:
  "\<not> (case dcmipp_pixelproc_s_frame_interval pixelproc_main
             \<lparr>fi_pad = 1, fi_interval = \<lparr>numerator = 1, denominator = 240\<rparr>\<rparr> of
          Inr (ret, d, fi) \<Rightarrow>
            frate d = 3 \<and> src_interval d = \<lparr>numerator = 8, denominator = 30\<rparr>
        | Inl f \<Rightarrow> False)"
  by (simp add: dcmipp_pixelproc_s_frame_interval_def pixelproc_main_def udiv_def IS_SINK_def
       dcmipp_frates_def Let_def)

text \<open>
  C4, amended: on a device that is not streaming and whose sink interval is 1/30, a
  requested source interval of 1/30 gives frame-skip code 0 and the source interval
  1/30; a requested 1/240 also gives code 0 and 1/30; and a requested 8/30 (eight times
  slower than the sink) gives code 3 and 8/30.
\<close>

theorem s_frame_interval_source_examples:
  "dcmipp_pixelproc_s_frame_interval
      (pixelproc\<lparr>streaming := False, sink_interval := \<lparr>numerator = 1, denominator = 30\<rparr>\<rparr>)
      \<lparr>fi_pad = 1, fi_interval = \<lparr>numerator = 1, denominator = 30\<rparr>\<rparr>
    = Inr (None,
           pixelproc\<lparr>streaming := False, sink_interval := \<lparr>numerator = 1, denominator = 30\<rparr>,
             frate := 0, src_interval := \<lparr>numerator = 1, denominator = 30\<rparr>\<rparr>,
           \<lparr>fi_pad = 1, fi_interval = \<lparr>numerator = 1, denominator = 30\<rparr>\<rparr>)
   \<and> dcmipp_pixelproc_s_frame_interval
      (pixelproc\<lparr>streaming := False, sink_interval := \<lparr>numerator = 1, denominator = 30\<rparr>\<rparr>)
      \<lparr>fi_pad = 1, fi_interval = \<lparr>numerator = 1, denominator = 240\<rparr>\<rparr>
    = Inr (None,
           pixelproc\<lparr>streaming := False, sink_interval := \<lparr>numerator = 1, denominator = 30\<rparr>,
             frate := 0, src_interval := \<lparr>numerator = 1, denominator = 30\<rparr>\<rparr>,
           \<lparr>fi_pad = 1, fi_interval = \<lparr>numerator = 1, denominator = 240\<rparr>\<rparr>)
   \<and> dcmipp_pixelproc_s_frame_interval
      (pixelproc\<lparr>streaming := False, sink_interval := \<lparr>numerator = 1, denominator = 30\<rparr>\<rparr>)
      \<lparr>fi_pad = 1, fi_interval = \<lparr>numerator = 8, denominator = 30\<rparr>\<rparr>
    = Inr (None,
           pixelproc\<lparr>streaming := False, sink_interval := \<lparr>numerator = 1, denominator = 30\<rparr>,
             frate := 3, src_interval := \<lparr>numerator = 8, denominator = 30\<rparr>\<rparr>,
           \<lparr>fi_pad = 1, fi_interval = \<lparr>numerator = 8, denominator = 30\<rparr>\<rparr>)"
  by (simp add: dcmipp_pixelproc_s_frame_interval_def udiv_def IS_SINK_def
       dcmipp_frates_def Let_def word_le_nat_alt)

text \<open>
  C9: on a device that is not streaming, setting the frame interval of the sink pad
  succeeds, resets the frame-skip code to 0 and makes both the sink and the source
  interval the new interval, where a request with a zero numerator or denominator is
  first replaced by the current sink interval (also in the caller's structure).
\<close>

theorem s_frame_interval_sink_resets:
  assumes "\<not> streaming pixelproc" and "IS_SINK (fi_pad fi)"
  shows "dcmipp_pixelproc_s_frame_interval pixelproc fi =
     (let new = (if numerator (fi_interval fi) = 0 \<or> denominator (fi_interval fi) = 0
                 then sink_interval pixelproc else fi_interval fi)
      in Inr (None,
              pixelproc\<lparr>frate := 0, sink_interval := new, src_interval := new\<rparr>,
              fi\<lparr>fi_interval := new\<rparr>))"
  using assms by (simp add: dcmipp_pixelproc_s_frame_interval_def Let_def)

theorem s_frame_interval_sink_resets_witness:
  "\<not> streaming (pixelproc_main\<lparr>frate := 3, src_interval := \<lparr>numerator = 8, denominator = 30\<rparr>\<rparr>)
   \<and> IS_SINK 0
   \<and> dcmipp_pixelproc_s_frame_interval
        (pixelproc_main\<lparr>frate := 3, src_interval := \<lparr>numerator = 8, denominator = 30\<rparr>\<rparr>)
        \<lparr>fi_pad = 0, fi_interval = \<lparr>numerator = 1, denominator = 60\<rparr>\<rparr>
      = Inr (None,
             pixelproc_main\<lparr>frate := 0, src_interval := \<lparr>numerator = 1, denominator = 60\<rparr>,
               sink_interval := \<lparr>numerator = 1, denominator = 60\<rparr>\<rparr>,
             \<lparr>fi_pad = 0, fi_interval = \<lparr>numerator = 1, denominator = 60\<rparr>\<rparr>)
   \<and> dcmipp_pixelproc_s_frame_interval
        (pixelproc_main\<lparr>frate := 3, src_interval := \<lparr>numerator = 8, denominator = 30\<rparr>\<rparr>)
        \<lparr>fi_pad = 0, fi_interval = \<lparr>numerator = 0, denominator = 25\<rparr>\<rparr>
      = Inr (None,
             pixelproc_main\<lparr>frate := 0, src_interval := \<lparr>numerator = 1, denominator = 30\<rparr>,
               sink_interval := \<lparr>numerator = 1, denominator = 30\<rparr>\<rparr>,
             \<lparr>fi_pad = 0, fi_interval = \<lparr>numerator = 1, denominator = 30\<rparr>\<rparr>)"
proof -
  let ?d = "pixelproc_main\<lparr>frate := 3, src_interval := \<lparr>numerator = 8, denominator = 30\<rparr>\<rparr>"
  have h1: "\<not> streaming ?d"
    by (simp add: pixelproc_main_def)
  have h2: "IS_SINK 0"
    by (simp add: IS_SINK_def)
  have h3: "IS_SINK (fi_pad \<lparr>fi_pad = 0, fi_interval = \<lparr>numerator = 1, denominator = 60\<rparr>\<rparr>)"
    by (simp add: IS_SINK_def)
  have h4: "IS_SINK (fi_pad \<lparr>fi_pad = 0, fi_interval = \<lparr>numerator = 0, denominator = 25\<rparr>\<rparr>)"
    by (simp add: IS_SINK_def)
  show ?thesis
    using h1 h2 s_frame_interval_sink_resets [OF h1 h3] s_frame_interval_sink_resets [OF h1 h4]
    by (simp add: pixelproc_main_def Let_def)
qed

section \<open>Formats\<close>

text \<open>
  C7: whenever \<^verbatim>\<open>set_fmt\<close> is not refused (it is refused only for \<open>which = active\<close>
  on a streaming device) it returns 0, and for the sink pad the stored sink format of
  that \<open>which\<close> is the clamped request while the stored source format of the same
  \<open>which\<close> is that sink format with only the code replaced: by
  \<^verbatim>\<open>MEDIA_BUS_FMT_YUYV8_2X8\<close> when the clamped sink code lies in
  \<open>[MEDIA_BUS_FMT_Y8_1X8, MEDIA_BUS_FMT_SBGGR8_1X8)\<close>, by
  \<^verbatim>\<open>MEDIA_BUS_FMT_RGB565_2X8_LE\<close> otherwise. For the source pad the stored source
  format is the clamped request itself and the sink format is not touched.
\<close>

theorem set_fmt_sink_propagates_to_source:
  assumes "\<not> (sf_which fmt = V4L2_SUBDEV_FORMAT_ACTIVE \<and> streaming pixelproc)"
  shows "case dcmipp_pixelproc_set_fmt env pixelproc state fmt of
      (ret, pixelproc', state', fmt') \<Rightarrow>
        let active = (sf_which fmt = V4L2_SUBDEV_FORMAT_ACTIVE);
            sink' = (if active then sink_fmt pixelproc' else try_fmt (pad_sink state'));
            src' = (if active then src_fmt pixelproc' else try_fmt (pad_src state'))
        in ret = None \<and>
           (sf_pad fmt = 0 \<longrightarrow>
              sink' = dcmipp_pixelproc_adjust_fmt env (sf_format fmt) 0 \<and>
              src' = sink'\<lparr>mf_code :=
                (if MEDIA_BUS_FMT_Y8_1X8 \<le> mf_code sink' \<and>
                    mf_code sink' < MEDIA_BUS_FMT_SBGGR8_1X8
                 then MEDIA_BUS_FMT_YUYV8_2X8 else MEDIA_BUS_FMT_RGB565_2X8_LE)\<rparr>) \<and>
           (sf_pad fmt = 1 \<longrightarrow>
              src' = dcmipp_pixelproc_adjust_fmt env (sf_format fmt) 1 \<and>
              sink' = (if active then sink_fmt pixelproc else try_fmt (pad_sink state)))"
  using assms
  by (auto simp: dcmipp_pixelproc_set_fmt_def Let_def set_try_format_def IS_SINK_def IS_SRC_def
        split: if_splits)

theorem set_fmt_sink_propagates_to_source_witness:
  "(\<not> (sf_which \<lparr>sf_which = V4L2_SUBDEV_FORMAT_ACTIVE, sf_pad = 0,
          sf_format = fmt_default\<lparr>mf_width := 1920, mf_height := 1080,
            mf_code := MEDIA_BUS_FMT_YUV8_1X24\<rparr>\<rparr> = V4L2_SUBDEV_FORMAT_ACTIVE
       \<and> streaming pixelproc_main)
   \<and> (case dcmipp_pixelproc_set_fmt dcmipp_common_example pixelproc_main try_state_init
         \<lparr>sf_which = V4L2_SUBDEV_FORMAT_ACTIVE, sf_pad = 0,
          sf_format = fmt_default\<lparr>mf_width := 1920, mf_height := 1080,
            mf_code := MEDIA_BUS_FMT_YUV8_1X24\<rparr>\<rparr> of
        (ret, d, st, f) \<Rightarrow>
          ret = None \<and>
          sink_fmt d = fmt_default\<lparr>mf_width := 1920, mf_height := 1080,
            mf_code := MEDIA_BUS_FMT_YUV8_1X24\<rparr> \<and>
          src_fmt d = fmt_default\<lparr>mf_width := 1920, mf_height := 1080,
            mf_code := MEDIA_BUS_FMT_YUYV8_2X8\<rparr>))
   \<and> (case dcmipp_pixelproc_set_fmt dcmipp_common_example pixelproc_main try_state_init
         \<lparr>sf_which = V4L2_SUBDEV_FORMAT_ACTIVE, sf_pad = 1,
          sf_format = fmt_default\<lparr>mf_code := MEDIA_BUS_FMT_UYVY8_2X8\<rparr>\<rparr> of
        (ret, d, st, f) \<Rightarrow>
          ret = None \<and>
          src_fmt d = fmt_default\<lparr>mf_code := MEDIA_BUS_FMT_UYVY8_2X8\<rparr> \<and>
          sink_fmt d = sink_fmt pixelproc_main)"
  (is "?sink \<and> ?src")
proof -
  have h: "\<not> (sf_which \<lparr>sf_which = V4L2_SUBDEV_FORMAT_ACTIVE, sf_pad = 0,
          sf_format = fmt_default\<lparr>mf_width := 1920, mf_height := 1080,
            mf_code := MEDIA_BUS_FMT_YUV8_1X24\<rparr>\<rparr> = V4L2_SUBDEV_FORMAT_ACTIVE
       \<and> streaming pixelproc_main)"
    by (simp add: pixelproc_main_def)
  have adj: "dcmipp_pixelproc_adjust_fmt dcmipp_common_example
       (fmt_default\<lparr>mf_width := 1920, mf_height := 1080, mf_code := MEDIA_BUS_FMT_YUV8_1X24\<rparr>) 0
     = fmt_default\<lparr>mf_width := 1920, mf_height := 1080, mf_code := MEDIA_BUS_FMT_YUV8_1X24\<rparr>"
    by (simp add: adjust_fmt_defs media_bus_fmt_defs v4l2_defs fmt_default_def
          dcmipp_common_example_def Let_def word_le_nat_alt)
  have rng: "MEDIA_BUS_FMT_Y8_1X8 \<le> MEDIA_BUS_FMT_YUV8_1X24"
    "MEDIA_BUS_FMT_YUV8_1X24 < MEDIA_BUS_FMT_SBGGR8_1X8"
    by (simp_all add: media_bus_fmt_defs word_le_nat_alt word_less_nat_alt)
  have h': "\<not> (sf_which \<lparr>sf_which = V4L2_SUBDEV_FORMAT_ACTIVE, sf_pad = 1,
          sf_format = fmt_default\<lparr>mf_code := MEDIA_BUS_FMT_UYVY8_2X8\<rparr>\<rparr> = V4L2_SUBDEV_FORMAT_ACTIVE
       \<and> streaming pixelproc_main)"
    by (simp add: pixelproc_main_def)
  have adj': "dcmipp_pixelproc_adjust_fmt dcmipp_common_example
       (fmt_default\<lparr>mf_code := MEDIA_BUS_FMT_UYVY8_2X8\<rparr>) 1
     = fmt_default\<lparr>mf_code := MEDIA_BUS_FMT_UYVY8_2X8\<rparr>"
    by (simp add: adjust_fmt_defs media_bus_fmt_defs v4l2_defs fmt_default_def
          dcmipp_common_example_def DCMIPP_FMT_WIDTH_DEFAULT_def DCMIPP_FMT_HEIGHT_DEFAULT_def
          Let_def word_le_nat_alt)
  have sink: ?sink
    using h set_fmt_sink_propagates_to_source [OF h, of dcmipp_common_example try_state_init]
    by (simp add: adj rng Let_def split: prod.splits)
  have src: ?src
    using set_fmt_sink_propagates_to_source [OF h', of dcmipp_common_example try_state_init]
    by (simp add: adj' Let_def split: prod.splits)
  show ?thesis
    using sink src by blast
qed

text \<open>
  C8: a successful \<^verbatim>\<open>set_fmt\<close> on the sink pad with \<open>which = active\<close> stores the
  clamped format and sets the active crop and the active compose rectangle to
  \<open>{left = 0, top = 0, width, height}\<close> of that format; with \<open>which = try\<close> it
  leaves the active crop and compose, and the try crop and compose, as they were.
\<close>

theorem set_fmt_sink_resets_crop_compose:
  assumes "dcmipp_pixelproc_set_fmt env pixelproc state fmt = (None, pixelproc', state', fmt')"
    and "IS_SINK (sf_pad fmt)"
  shows "(sf_which fmt = V4L2_SUBDEV_FORMAT_ACTIVE \<longrightarrow>
            sink_fmt pixelproc' = dcmipp_pixelproc_adjust_fmt env (sf_format fmt) (sf_pad fmt) \<and>
            crop pixelproc' = \<lparr>r_left = 0, r_top = 0, r_width = mf_width (sink_fmt pixelproc'),
                                r_height = mf_height (sink_fmt pixelproc')\<rparr> \<and>
            compose pixelproc' = \<lparr>r_left = 0, r_top = 0, r_width = mf_width (sink_fmt pixelproc'),
                                   r_height = mf_height (sink_fmt pixelproc')\<rparr>) \<and>
         (sf_which fmt = V4L2_SUBDEV_FORMAT_TRY \<longrightarrow>
            crop pixelproc' = crop pixelproc \<and> compose pixelproc' = compose pixelproc \<and>
            try_crop (pad_sink state') = try_crop (pad_sink state) \<and>
            try_compose (pad_sink state') = try_compose (pad_sink state))"
  using assms
  by (auto simp: dcmipp_pixelproc_set_fmt_def Let_def set_try_format_def IS_SINK_def IS_SRC_def
        V4L2_SUBDEV_FORMAT_ACTIVE_def V4L2_SUBDEV_FORMAT_TRY_def split: if_splits)

lemma set_fmt_main_1080p:
  "dcmipp_pixelproc_set_fmt dcmipp_common_example
      (pixelproc_main\<lparr>crop := \<lparr>r_left = 8, r_top = 8, r_width = 320, r_height = 240\<rparr>,
                      compose := \<lparr>r_left = 0, r_top = 0, r_width = 160, r_height = 120\<rparr>\<rparr>)
      try_state_init
      \<lparr>sf_which = V4L2_SUBDEV_FORMAT_ACTIVE, sf_pad = 0,
       sf_format = fmt_default\<lparr>mf_width := 1920, mf_height := 1080\<rparr>\<rparr>
    = (None,
       pixelproc_main\<lparr>
         sink_fmt := fmt_default\<lparr>mf_width := 1920, mf_height := 1080\<rparr>,
         src_fmt := fmt_default\<lparr>mf_width := 1920, mf_height := 1080,
                      mf_code := MEDIA_BUS_FMT_RGB565_2X8_LE\<rparr>,
         crop := \<lparr>r_left = 0, r_top = 0, r_width = 1920, r_height = 1080\<rparr>,
         compose := \<lparr>r_left = 0, r_top = 0, r_width = 1920, r_height = 1080\<rparr>\<rparr>,
       try_state_init,
       \<lparr>sf_which = V4L2_SUBDEV_FORMAT_ACTIVE, sf_pad = 0,
        sf_format = fmt_default\<lparr>mf_width := 1920, mf_height := 1080\<rparr>\<rparr>)"
  by (simp add: dcmipp_pixelproc_set_fmt_def adjust_fmt_defs media_bus_fmt_defs v4l2_defs
        fmt_default_def dcmipp_common_example_def pixelproc_main_def Let_def
        word_le_nat_alt word_less_nat_alt)

theorem set_fmt_sink_resets_crop_compose_witness:
  "dcmipp_pixelproc_set_fmt dcmipp_common_example
      (pixelproc_main\<lparr>crop := \<lparr>r_left = 8, r_top = 8, r_width = 320, r_height = 240\<rparr>,
                      compose := \<lparr>r_left = 0, r_top = 0, r_width = 160, r_height = 120\<rparr>\<rparr>)
      try_state_init
      \<lparr>sf_which = V4L2_SUBDEV_FORMAT_ACTIVE, sf_pad = 0,
       sf_format = fmt_default\<lparr>mf_width := 1920, mf_height := 1080\<rparr>\<rparr>
    = (None,
       pixelproc_main\<lparr>
         sink_fmt := fmt_default\<lparr>mf_width := 1920, mf_height := 1080\<rparr>,
         src_fmt := fmt_default\<lparr>mf_width := 1920, mf_height := 1080,
                      mf_code := MEDIA_BUS_FMT_RGB565_2X8_LE\<rparr>,
         crop := \<lparr>r_left = 0, r_top = 0, r_width = 1920, r_height = 1080\<rparr>,
         compose := \<lparr>r_left = 0, r_top = 0, r_width = 1920, r_height = 1080\<rparr>\<rparr>,
       try_state_init,
       \<lparr>sf_which = V4L2_SUBDEV_FORMAT_ACTIVE, sf_pad = 0,
        sf_format = fmt_default\<lparr>mf_width := 1920, mf_height := 1080\<rparr>\<rparr>)
   \<and> IS_SINK (sf_pad \<lparr>sf_which = V4L2_SUBDEV_FORMAT_ACTIVE, sf_pad = 0,
       sf_format = fmt_default\<lparr>mf_width := 1920, mf_height := 1080\<rparr>\<rparr>)
   \<and> crop (pixelproc_main\<lparr>
         sink_fmt := fmt_default\<lparr>mf_width := 1920, mf_height := 1080\<rparr>,
         src_fmt := fmt_default\<lparr>mf_width := 1920, mf_height := 1080,
                      mf_code := MEDIA_BUS_FMT_RGB565_2X8_LE\<rparr>,
         crop := \<lparr>r_left = 0, r_top = 0, r_width = 1920, r_height = 1080\<rparr>,
         compose := \<lparr>r_left = 0, r_top = 0, r_width = 1920, r_height = 1080\<rparr>\<rparr>)
       = \<lparr>r_left = 0, r_top = 0, r_width = 1920, r_height = 1080\<rparr>"
proof -
  have h2: "IS_SINK (sf_pad \<lparr>sf_which = V4L2_SUBDEV_FORMAT_ACTIVE, sf_pad = 0,
       sf_format = fmt_default\<lparr>mf_width := 1920, mf_height := 1080\<rparr>\<rparr>)"
    by (simp add: IS_SINK_def)
  show ?thesis
    using set_fmt_main_1080p h2 set_fmt_sink_resets_crop_compose [OF set_fmt_main_1080p h2]
    by simp
qed

text \<open>
  The guard of \<^verbatim>\<open>set_fmt\<close>, taken alone: were the flag true, an active call
  would return \<^verbatim>\<open>-EBUSY\<close> before any store, with the device, the try state and
  the caller's format as they were passed.
\<close>

lemma set_fmt_active_busy:
  assumes "sf_which fmt = V4L2_SUBDEV_FORMAT_ACTIVE" and "streaming pixelproc"
  shows "dcmipp_pixelproc_set_fmt env pixelproc state fmt = (Some EBUSY, pixelproc, state, fmt)"
  using assms by (simp add: dcmipp_pixelproc_set_fmt_def)

text \<open>
  C10: on a streaming pipe, \<^verbatim>\<open>set_fmt\<close> with \<open>which = active\<close> is claimed to
  return Busy with the sink format, source format, crop and compose untouched. The
  guard reads a flag that the stream start never sets: on the main pipe as constructed
  and then started (the stream start returns 0), an active sink \<^verbatim>\<open>set_fmt\<close> for
  1920x1080 returns 0 and rewrites the sink format, the source format, the crop and the
  compose rectangle.
\<close>

theorem set_fmt_on_started_pipe:
  "dcmipp_pixelproc_ent_init dcmipp_common_example ''dcmipp_main_postproc'' = Inr pixelproc_main
   \<and> (case dcmipp_pixelproc_s_stream dcmipp_common_example pixelproc_main 1 of
        Inr (ret, d) \<Rightarrow>
          ret = None
          \<and> sink_fmt d = fmt_default
          \<and> crop d = \<lparr>r_left = 0, r_top = 0, r_width = 640, r_height = 480\<rparr>
          \<and> dcmipp_pixelproc_set_fmt dcmipp_common_example d try_state_init
              \<lparr>sf_which = V4L2_SUBDEV_FORMAT_ACTIVE, sf_pad = 0,
               sf_format = fmt_default\<lparr>mf_width := 1920, mf_height := 1080,
                 mf_code := MEDIA_BUS_FMT_YUV8_1X24\<rparr>\<rparr>
            = (None,
               d\<lparr>sink_fmt := fmt_default\<lparr>mf_width := 1920, mf_height := 1080,
                              mf_code := MEDIA_BUS_FMT_YUV8_1X24\<rparr>,
                 src_fmt := fmt_default\<lparr>mf_width := 1920, mf_height := 1080,
                              mf_code := MEDIA_BUS_FMT_YUYV8_2X8\<rparr>,
                 crop := \<lparr>r_left = 0, r_top = 0, r_width = 1920, r_height = 1080\<rparr>,
                 compose := \<lparr>r_left = 0, r_top = 0, r_width = 1920, r_height = 1080\<rparr>\<rparr>,
               try_state_init,
               \<lparr>sf_which = V4L2_SUBDEV_FORMAT_ACTIVE, sf_pad = 0,
                sf_format = fmt_default\<lparr>mf_width := 1920, mf_height := 1080,
                  mf_code := MEDIA_BUS_FMT_YUV8_1X24\<rparr>\<rparr>)
      | Inl f \<Rightarrow> False)"
proof -
  have b: "(case dcmipp_pixelproc_s_stream dcmipp_common_example pixelproc_main 1 of
        Inr (ret, d) \<Rightarrow>
          ret = None
          \<and> sink_fmt d = fmt_default
          \<and> crop d = \<lparr>r_left = 0, r_top = 0, r_width = 640, r_height = 480\<rparr>
          \<and> dcmipp_pixelproc_set_fmt dcmipp_common_example d try_state_init
              \<lparr>sf_which = V4L2_SUBDEV_FORMAT_ACTIVE, sf_pad = 0,
               sf_format = fmt_default\<lparr>mf_width := 1920, mf_height := 1080,
                 mf_code := MEDIA_BUS_FMT_YUV8_1X24\<rparr>\<rparr>
            = (None,
               d\<lparr>sink_fmt := fmt_default\<lparr>mf_width := 1920, mf_height := 1080,
                              mf_code := MEDIA_BUS_FMT_YUV8_1X24\<rparr>,
                 src_fmt := fmt_default\<lparr>mf_width := 1920, mf_height := 1080,
                              mf_code := MEDIA_BUS_FMT_YUYV8_2X8\<rparr>,
                 crop := \<lparr>r_left = 0, r_top = 0, r_width = 1920, r_height = 1080\<rparr>,
                 compose := \<lparr>r_left = 0, r_top = 0, r_width = 1920, r_height = 1080\<rparr>\<rparr>,
               try_state_init,
               \<lparr>sf_which = V4L2_SUBDEV_FORMAT_ACTIVE, sf_pad = 0,
                sf_format = fmt_default\<lparr>mf_width := 1920, mf_height := 1080,
                  mf_code := MEDIA_BUS_FMT_YUV8_1X24\<rparr>\<rparr>)
      | Inl f \<Rightarrow> False)"
    by code_simp
  show ?thesis using ent_init_main b by blast
qed

section \<open>Bounds of the scaler that hold\<close>

lemma downscale_factors_clamped:
  assumes "downscale_factors crp cmp = Inr d"
  shows "hratio d \<le> DCMIPP_PIXELPROC_HVRATIO_MAX \<and> vratio d \<le> DCMIPP_PIXELPROC_HVRATIO_MAX
       \<and> hdiv d \<le> DCMIPP_PIXELPROC_HVDIV_MAX \<and> vdiv d \<le> DCMIPP_PIXELPROC_HVDIV_MAX"
  using assms
  by (auto simp: downscale_factors_def Let_def split: prod.splits sum.splits if_splits)

text \<open>
  With a nonzero crop and a nonzero compose dimension below \<open>2 ^ 29\<close> (so that the
  product by 8 does not wrap) the loop leaves a nonzero dimension, and the scaler
  returns.
\<close>

lemma decimation_post_nonzero:
  assumes "target \<noteq> 0" and "unat target < 2 ^ 29" and "post_dec \<noteq> 0"
  shows "snd (decimation target dec post_dec) \<noteq> 0"
  using assms
proof (induction target dec post_dec rule: decimation.induct)
  case (1 target dec post_dec)
  show ?case
  proof (cases "target * DCMIPP_MAX_DOWNSIZE_RATIO < post_dec")
    case False
    with "1.prems" show ?thesis
      by (simp add: decimation.simps)
  next
    case True
    have "unat (target * 8) = unat target * 8"
      using "1.prems"(2) by (simp add: unat_word_ariths)
    moreover have "0 < unat target"
      using "1.prems"(1) by (simp add: unat_gt_0)
    ultimately have "8 \<le> unat (target * 8)"
      by simp
    with True have "8 < unat post_dec"
      by (simp add: DCMIPP_MAX_DOWNSIZE_RATIO_def word_less_nat_alt)
    then have "unat (post_dec div 2) \<noteq> 0"
      by (simp add: unat_div)
    then have nz: "post_dec div 2 \<noteq> 0"
      by (metis unat_0)
    from "1.IH" [OF True "1.prems"(1) "1.prems"(2) nz] True show ?thesis
      by (simp add: decimation.simps)
  qed
qed

lemma downscale_factors_returns:
  assumes "r_width cmp \<noteq> 0" and "unat (r_width cmp) < 2 ^ 29" and "r_width crp \<noteq> 0"
    and "r_height cmp \<noteq> 0" and "unat (r_height cmp) < 2 ^ 29" and "r_height crp \<noteq> 0"
  shows "\<exists>d. downscale_factors crp cmp = Inr d"
proof -
  obtain hd hp where h: "decimation (r_width cmp) 0 (r_width crp) = (hd, hp)"
    by fastforce
  obtain vd vp where v: "decimation (r_height cmp) 0 (r_height crp) = (vd, vp)"
    by fastforce
  have "hp \<noteq> 0"
    using decimation_post_nonzero [OF assms(1-3), of 0] h by simp
  moreover have "vp \<noteq> 0"
    using decimation_post_nonzero [OF assms(4-6), of 0] v by simp
  ultimately show ?thesis
    using assms(1) assms(4) by (simp add: downscale_factors_def h v udiv_def)
qed

end
